theory Spec2Isabelle
  imports Complex_Main
begin

section \<open>Values and formatting\<close>

text \<open>
  The engine of \<^verbatim>\<open>app.py\<close> reads its inputs from dictionaries of JSON scalars.
  A number (Python \<^verbatim>\<open>int\<close>, \<^verbatim>\<open>bool\<close> or finite \<^verbatim>\<open>float\<close>) is represented by
  the rational it denotes, so that \<^verbatim>\<open>==\<close>, \<^verbatim>\<open>>=\<close> and \<^verbatim>\<open>>\<close> are the exact
  comparisons Python performs between \<^verbatim>\<open>int\<close> and \<^verbatim>\<open>float\<close>. A field the code
  guards with \<^verbatim>\<open>isinstance(v, (int, float))\<close> or tests with \<^verbatim>\<open>in\<close> may hold any
  scalar (\<open>pyval\<close>); a field the code uses in arithmetic without a guard
  (\<^verbatim>\<open>wx.get(k) or 0.0\<close>) is a number or null (\<open>rat option\<close>), which is what the
  provider's parser hands over. A missing key and a null value are both \<open>PNone\<close> / \<open>None\<close>,
  as \<^verbatim>\<open>dict.get\<close> makes them. Infinities and NaN are outside the model, and the one
  floating-point operation of the engine, the sum \<^verbatim>\<open>precipitation_mm + rain_mm\<close>, is
  taken exactly, without the rounding of binary64.
\<close>

datatype pyval = PNone | PNum rat | PStr string

text \<open>\<^verbatim>\<open>isinstance(v, (int, float))\<close>\<close>

fun is_number :: "pyval \<Rightarrow> bool" where
  "is_number (PNum x) = True"
| "is_number v = False"

text \<open>\<^verbatim>\<open>code in (c1, c2, ...)\<close>: equality with one of the listed integers.\<close>

fun code_in :: "pyval \<Rightarrow> rat list \<Rightarrow> bool" where
  "code_in (PNum x) cs = (x \<in> set cs)"
| "code_in v cs = False"

text \<open>\<^verbatim>\<open>v or 0.0\<close> for a number or null.\<close>

fun or_zero :: "rat option \<Rightarrow> rat" where
  "or_zero None = 0"
| "or_zero (Some x) = x"

text \<open>
  Python's \<^verbatim>\<open>format(x, '.df')\<close>: the decimal expansion of \<open>x\<close> with \<open>d\<close> fractional
  digits, the exact value rounded half to even, with a sign for negative values.
\<close>

definition round_half_even :: "rat \<Rightarrow> int" where
  "round_half_even x =
     (let f = \<lfloor>x\<rfloor>; r = x - of_int f
      in if r < 1 / 2 then f
         else if 1 / 2 < r then f + 1
         else if even f then f else f + 1)"

fun digits :: "nat \<Rightarrow> string" where
  "digits n =
     (if n < 10 then [char_of (48 + n)]
      else digits (n div 10) @ [char_of (48 + n mod 10)])"

declare digits.simps [simp del]

definition zfill :: "nat \<Rightarrow> string \<Rightarrow> string" where
  "zfill w s = replicate (w - length s) (CHR ''0'') @ s"

definition format_f :: "nat \<Rightarrow> rat \<Rightarrow> string" where
  "format_f d x =
     (let q = nat (round_half_even (\<bar>x\<bar> * 10 ^ d))
      in (if x < 0 then ''-'' else '''')
         @ digits (q div 10 ^ d)
         @ (if d = 0 then '''' else ''.'' @ zfill d (digits (q mod 10 ^ d))))"

text \<open>The two non-ASCII characters of the messages, in UTF-8.\<close>

definition em_dash :: string where
  "em_dash = [CHR 0xE2, CHR 0x80, CHR 0x94]"

definition right_arrow :: string where
  "right_arrow = [CHR 0xE2, CHR 0x86, CHR 0x92]"

section \<open>Safety policy\<close>

record SafetyPolicy =
  thunderstorm_hard_stop :: bool
  wind_mod :: rat
  wind_strong :: rat
  gust_mod :: rat
  gust_strong :: rat
  precip_mod :: rat
  precip_heavy :: rat
  wave_moderate :: rat
  wave_elevated :: rat
  wave_high :: rat
  swell_notable :: rat
  swell_large :: rat
  long_period_s :: rat
  score_fog_realtime :: int
  score_fog_forecast :: int
  score_wind_strong :: int
  score_wind_mod :: int
  score_precip_heavy :: int
  score_precip_mod :: int
  score_wave_high :: int
  score_wave_elevated :: int
  score_wave_moderate :: int
  score_swell_large :: int
  score_swell_notable :: int
  score_surge_long_period :: int
  score_missing_waves :: int
  band_caution_min :: int
  band_unsafe_min :: int

text \<open>\<^verbatim>\<open>SafetyPolicy()\<close>: the defaults of the dataclass.\<close>

definition default_policy :: SafetyPolicy where
  "default_policy =
     \<lparr> thunderstorm_hard_stop = True,
       wind_mod = 20, wind_strong = 30, gust_mod = 35, gust_strong = 45,
       precip_mod = 2, precip_heavy = 5,
       wave_moderate = 1, wave_elevated = 3 / 2, wave_high = 2,
       swell_notable = 3 / 2, swell_large = 2, long_period_s = 10,
       score_fog_realtime = 10, score_fog_forecast = 20,
       score_wind_strong = 40, score_wind_mod = 15,
       score_precip_heavy = 10, score_precip_mod = 5,
       score_wave_high = 50, score_wave_elevated = 20, score_wave_moderate = 8,
       score_swell_large = 40, score_swell_notable = 15,
       score_surge_long_period = 10, score_missing_waves = 5,
       band_caution_min = 20, band_unsafe_min = 60 \<rparr>"

section \<open>Inputs and verdict\<close>

text \<open>
  Each dictionary the engine reads is a record whose fields are the keys the code looks
  up, under the code's names; the keys it never reads are left out. The hours of a
  forecast have the keys of the weather section of a reading. The verdict is the
  dictionary both evaluators return, with \<open>None\<close> for a null score.
\<close>

record weather =
  weather_code :: pyval
  wind_speed_10m_kmh :: "rat option"
  wind_gusts_10m_kmh :: "rat option"
  precipitation_mm :: "rat option"
  rain_mm :: "rat option"
  temperature_2m_c :: pyval

record marine =
  wave_height_m :: pyval
  swell_wave_height_m :: pyval
  swell_wave_period_s :: pyval

record reading =
  weather :: "weather option"
  marine :: "marine option"

record marine_daily =
  wave_height_max_m :: pyval
  swell_wave_height_max_m :: pyval

record forecast =
  hourly :: "weather list"
  marine_daily :: "marine_daily option"

record verdict =
  status :: string
  score :: "int option"
  reasons :: "string list"
  tips :: "string list"

text \<open>\<^verbatim>\<open>x or {}\<close>: an absent section is the empty dictionary, whose every key reads null.\<close>

definition empty_weather :: weather where
  "empty_weather =
     \<lparr> weather_code = PNone, wind_speed_10m_kmh = None, wind_gusts_10m_kmh = None,
       precipitation_mm = None, rain_mm = None, temperature_2m_c = PNone \<rparr>"

definition empty_marine :: marine where
  "empty_marine =
     \<lparr> wave_height_m = PNone, swell_wave_height_m = PNone, swell_wave_period_s = PNone \<rparr>"

definition empty_marine_daily :: marine_daily where
  "empty_marine_daily = \<lparr> wave_height_max_m = PNone, swell_wave_height_max_m = PNone \<rparr>"

fun or_empty :: "'a \<Rightarrow> 'a option \<Rightarrow> 'a" where
  "or_empty e None = e"
| "or_empty e (Some d) = d"

section \<open>Risk engine\<close>

definition map_status :: "int \<Rightarrow> bool \<Rightarrow> SafetyPolicy \<Rightarrow> string" where
  "map_status sc hard policy =
     (if hard then ''Unsafe''
      else if band_unsafe_min policy \<le> sc then ''Unsafe''
      else if band_caution_min policy \<le> sc then ''Caution''
      else ''Safe'')"

text \<open>\<^verbatim>\<open>_dedupe\<close>: the loop over \<^verbatim>\<open>seq\<close> with its two variables \<^verbatim>\<open>seen\<close> and \<^verbatim>\<open>out\<close>.\<close>

fun dedupe_loop :: "string list \<Rightarrow> string set \<Rightarrow> string list \<Rightarrow> string list" where
  "dedupe_loop [] seen out = out"
| "dedupe_loop (s # seq) seen out =
     (if s \<notin> seen then dedupe_loop seq (insert s seen) (out @ [s])
      else dedupe_loop seq seen out)"

definition dedupe :: "string list \<Rightarrow> string list" where
  "dedupe seq = dedupe_loop seq {} []"

text \<open>The four local variables both evaluators accumulate into.\<close>

record acc =
  acc_reasons :: "string list"
  acc_tips :: "string list"
  acc_score :: int
  acc_hard_unsafe :: bool

definition init_acc :: acc where
  "init_acc = \<lparr> acc_reasons = [], acc_tips = [], acc_score = 0, acc_hard_unsafe = False \<rparr>"

definition add_reason :: "string \<Rightarrow> acc \<Rightarrow> acc" where
  "add_reason r a = a\<lparr>acc_reasons := acc_reasons a @ [r]\<rparr>"

definition add_tip :: "string \<Rightarrow> acc \<Rightarrow> acc" where
  "add_tip t a = a\<lparr>acc_tips := acc_tips a @ [t]\<rparr>"

definition add_score :: "int \<Rightarrow> acc \<Rightarrow> acc" where
  "add_score n a = a\<lparr>acc_score := acc_score a + n\<rparr>"

text \<open>The return statement shared by both evaluators.\<close>

definition finish :: "SafetyPolicy \<Rightarrow> acc \<Rightarrow> verdict" where
  "finish policy a =
     \<lparr> status = map_status (acc_score a) (acc_hard_unsafe a) policy,
       score = Some (if acc_hard_unsafe a then 100 else acc_score a),
       reasons = dedupe (acc_reasons a),
       tips = dedupe (acc_tips a) \<rparr>"

subsection \<open>Real-time assessment\<close>

text \<open>
  \<^verbatim>\<open>assess_realtime\<close> is a sequence of independent blocks over the accumulated
  variables; each block of the source is one function here, in the source's order.
\<close>

definition rt_thunderstorm :: "SafetyPolicy \<Rightarrow> pyval \<Rightarrow> acc \<Rightarrow> acc" where
  "rt_thunderstorm policy code a =
     (if thunderstorm_hard_stop policy \<and> code_in code [95, 96, 99]
      then (add_reason ''Thunderstorm in area (lightning risk).'' a)\<lparr>acc_hard_unsafe := True\<rparr>
      else a)"

definition fog_reason_rt :: string where
  "fog_reason_rt =
     ''Fog reduces surface visibility '' @ em_dash @ '' higher boat collision risk.''"

definition fog_tip_rt :: string where
  "fog_tip_rt = ''Use dive flag + SMB; delay until fog clears or add surface support.''"

definition rt_fog :: "SafetyPolicy \<Rightarrow> string \<Rightarrow> pyval \<Rightarrow> acc \<Rightarrow> acc" where
  "rt_fog policy fog_policy code a =
     (if code_in code [45, 48]
      then (let a1 = add_tip fog_tip_rt (add_reason fog_reason_rt a)
            in if fog_policy = ''score'' then add_score (score_fog_realtime policy) a1
               else if fog_policy = ''caution''
               then a1\<lparr>acc_score := max (acc_score a1) (band_caution_min policy)\<rparr>
               else a1)
      else a)"

definition rt_wind :: "SafetyPolicy \<Rightarrow> rat \<Rightarrow> rat \<Rightarrow> acc \<Rightarrow> acc" where
  "rt_wind policy wind gust a =
     (if wind_strong policy \<le> wind \<or> gust_strong policy \<le> gust
      then add_score (score_wind_strong policy)
             (add_tip ''Expect chop; consider sheltered site or postponing.''
               (add_reason (''Strong wind/gusts ('' @ format_f 0 wind @ ''/''
                              @ format_f 0 gust @ '' km/h).'') a))
      else if wind_mod policy \<le> wind \<or> gust_mod policy \<le> gust
      then add_score (score_wind_mod policy)
             (add_tip ''Prefer protected entry/exit; monitor drift.''
               (add_reason (''Moderate wind/gusts ('' @ format_f 0 wind @ ''/''
                              @ format_f 0 gust @ '' km/h).'') a))
      else a)"

definition rt_precip :: "SafetyPolicy \<Rightarrow> rat \<Rightarrow> acc \<Rightarrow> acc" where
  "rt_precip policy precip a =
     (if precip_heavy policy \<le> precip
      then add_score (score_precip_heavy policy)
             (add_reason (''Heavy rain ('' @ format_f 1 precip
                            @ '' mm/hr) may reduce vis/runoff.'') a)
      else if precip_mod policy \<le> precip
      then add_score (score_precip_mod policy)
             (add_reason (''Moderate rain ('' @ format_f 1 precip @ '' mm/hr).'') a)
      else a)"

definition wave_missing_reason_rt :: string where
  "wave_missing_reason_rt =
     ''Wave height unavailable '' @ em_dash @ '' incomplete sea-state assessment.''"

fun rt_waves :: "SafetyPolicy \<Rightarrow> pyval \<Rightarrow> acc \<Rightarrow> acc" where
  "rt_waves policy (PNum wave_h) a =
     (if wave_high policy < wave_h
      then add_score (score_wave_high policy)
             (add_tip ''Postpone or choose very sheltered site.''
               (add_reason (''High waves ('' @ format_f 2 wave_h @ '' m) '' @ em_dash
                              @ '' unsafe entries likely.'') a))
      else if wave_elevated policy < wave_h
      then add_score (score_wave_elevated policy)
             (add_tip ''Assess surge at entry; plan alternate exits.''
               (add_reason (''Elevated waves ('' @ format_f 2 wave_h @ '' m).'') a))
      else if wave_moderate policy < wave_h
      then add_score (score_wave_moderate policy)
             (add_reason (''Moderate waves ('' @ format_f 2 wave_h @ '' m).'') a)
      else a)"
| "rt_waves policy wave_h a =
     add_score (score_missing_waves policy) (add_reason wave_missing_reason_rt a)"

fun rt_swell :: "SafetyPolicy \<Rightarrow> pyval \<Rightarrow> pyval \<Rightarrow> acc \<Rightarrow> acc" where
  "rt_swell policy (PNum swell_h) (PNum swell_p) a =
     (if swell_large policy \<le> swell_h
      then add_score (score_swell_large policy)
             (add_reason (''Large swell ('' @ format_f 2 swell_h @ '' m @ ''
                            @ format_f 0 swell_p @ ''s).'') a)
      else if swell_notable policy \<le> swell_h
      then add_score (score_swell_notable policy)
             (add_reason (''Notable swell ('' @ format_f 2 swell_h @ '' m @ ''
                            @ format_f 0 swell_p @ ''s).'') a)
      else if 1 \<le> swell_h \<and> long_period_s policy \<le> swell_p
      then add_score (score_surge_long_period policy)
             (add_reason (''Long-period swell ('' @ format_f 2 swell_h @ '' m @ ''
                            @ format_f 0 swell_p @ ''s) '' @ right_arrow
                            @ '' surge risk.'') a)
      else a)"
| "rt_swell policy swell_h swell_p a = a"

fun rt_comfort :: "pyval \<Rightarrow> acc \<Rightarrow> acc" where
  "rt_comfort (PNum air_c) a =
     (if air_c < 16
      then add_tip (''Cold air '' @ em_dash @ '' consider thicker wetsuit, hood, gloves.'') a
      else a)"
| "rt_comfort air_c a = a"

text \<open>Steps 1 to 4: the rules on the weather section.\<close>

definition rt_weather_rules :: "SafetyPolicy \<Rightarrow> string \<Rightarrow> weather \<Rightarrow> acc \<Rightarrow> acc" where
  "rt_weather_rules policy fog_policy wx a =
     (let code = weather_code wx;
          wind = or_zero (wind_speed_10m_kmh wx);
          gust = or_zero (wind_gusts_10m_kmh wx);
          precip = or_zero (precipitation_mm wx) + or_zero (rain_mm wx)
      in rt_precip policy precip
           (rt_wind policy wind gust
             (rt_fog policy fog_policy code
               (rt_thunderstorm policy code a))))"

definition rt_sea_rules :: "SafetyPolicy \<Rightarrow> marine \<Rightarrow> acc \<Rightarrow> acc" where
  "rt_sea_rules policy sea a =
     rt_swell policy (swell_wave_height_m sea) (swell_wave_period_s sea)
       (rt_waves policy (wave_height_m sea) a)"

definition assess_realtime :: "reading \<Rightarrow> SafetyPolicy \<Rightarrow> string \<Rightarrow> verdict" where
  "assess_realtime rd policy fog_policy =
     (let wx = or_empty empty_weather (weather rd);
          sea = or_empty empty_marine (marine rd)
      in finish policy
           (rt_comfort (temperature_2m_c wx)
             (rt_sea_rules policy sea
               (rt_weather_rules policy fog_policy wx init_acc))))"

subsection \<open>Forecast assessment\<close>

definition fc_fog :: "SafetyPolicy \<Rightarrow> string \<Rightarrow> pyval \<Rightarrow> acc \<Rightarrow> acc" where
  "fc_fog policy fog_policy code a =
     (if code_in code [45, 48]
      then (let a1 = add_reason ''Fog possible at some hours (surface visibility risk).'' a
            in if fog_policy = ''score'' then add_score (score_fog_forecast policy) a1
               else if fog_policy = ''caution''
               then a1\<lparr>acc_score := max (acc_score a1) (band_caution_min policy)\<rparr>
               else a1)
      else a)"

definition fc_wind :: "SafetyPolicy \<Rightarrow> rat \<Rightarrow> rat \<Rightarrow> acc \<Rightarrow> acc" where
  "fc_wind policy wind gust a =
     (if wind_strong policy \<le> wind \<or> gust_strong policy \<le> gust
      then add_score (score_wind_strong policy)
             (add_reason (''Strong winds forecast ('' @ format_f 0 wind @ ''/''
                            @ format_f 0 gust @ '' km/h).'') a)
      else if wind_mod policy \<le> wind \<or> gust_mod policy \<le> gust
      then add_score (score_wind_mod policy)
             (add_reason (''Moderate winds forecast ('' @ format_f 0 wind @ ''/''
                            @ format_f 0 gust @ '' km/h).'') a)
      else a)"

definition fc_precip :: "SafetyPolicy \<Rightarrow> rat \<Rightarrow> acc \<Rightarrow> acc" where
  "fc_precip policy precip a =
     (if precip_heavy policy \<le> precip
      then add_score (score_precip_heavy policy)
             (add_reason (''Heavy rain forecast ('' @ format_f 1 precip @ '' mm/hr).'') a)
      else if precip_mod policy \<le> precip
      then add_score (score_precip_mod policy)
             (add_reason (''Moderate rain forecast ('' @ format_f 1 precip @ '' mm/hr).'') a)
      else a)"

text \<open>The body of the loop for an hour that does not break out of it.\<close>

definition fc_hour_rules :: "SafetyPolicy \<Rightarrow> string \<Rightarrow> weather \<Rightarrow> acc \<Rightarrow> acc" where
  "fc_hour_rules policy fog_policy h a =
     (let code = weather_code h;
          wind = or_zero (wind_speed_10m_kmh h);
          gust = or_zero (wind_gusts_10m_kmh h);
          precip = or_zero (precipitation_mm h) + or_zero (rain_mm h)
      in fc_precip policy precip
           (fc_wind policy wind gust
             (fc_fog policy fog_policy code a)))"

text \<open>The loop \<^verbatim>\<open>for h in hourly\<close>; the first equation's \<open>then\<close> branch is the \<^verbatim>\<open>break\<close>.\<close>

fun scan_hours :: "SafetyPolicy \<Rightarrow> string \<Rightarrow> weather list \<Rightarrow> acc \<Rightarrow> acc" where
  "scan_hours policy fog_policy [] a = a"
| "scan_hours policy fog_policy (h # hs) a =
     (if thunderstorm_hard_stop policy \<and> code_in (weather_code h) [95, 96, 99]
      then (add_reason ''Thunderstorm forecast (lightning risk).'' a)\<lparr>acc_hard_unsafe := True\<rparr>
      else scan_hours policy fog_policy hs (fc_hour_rules policy fog_policy h a))"

definition wave_missing_reason_fc :: string where
  "wave_missing_reason_fc =
     ''Wave height (forecast) unavailable '' @ em_dash @ '' incomplete sea state.''"

fun fc_waves :: "SafetyPolicy \<Rightarrow> pyval \<Rightarrow> acc \<Rightarrow> acc" where
  "fc_waves policy (PNum wave_h) a =
     (if wave_high policy < wave_h
      then add_score (score_wave_high policy)
             (add_reason (''High waves up to '' @ format_f 2 wave_h @ '' m.'') a)
      else if wave_elevated policy < wave_h
      then add_score (score_wave_elevated policy)
             (add_reason (''Elevated waves up to '' @ format_f 2 wave_h @ '' m.'') a)
      else if wave_moderate policy < wave_h
      then add_score (score_wave_moderate policy)
             (add_reason (''Moderate waves up to '' @ format_f 2 wave_h @ '' m.'') a)
      else a)"
| "fc_waves policy wave_h a =
     add_score (score_missing_waves policy) (add_reason wave_missing_reason_fc a)"

fun fc_swell :: "SafetyPolicy \<Rightarrow> pyval \<Rightarrow> acc \<Rightarrow> acc" where
  "fc_swell policy (PNum swell_h) a =
     (if swell_large policy \<le> swell_h
      then add_score (score_swell_large policy)
             (add_reason (''Swell up to '' @ format_f 2 swell_h @ '' m (surge risk).'') a)
      else if swell_notable policy \<le> swell_h
      then add_score (score_swell_notable policy)
             (add_reason (''Swell up to '' @ format_f 2 swell_h @ '' m.'') a)
      else a)"
| "fc_swell policy swell_h a = a"

definition fc_marine_rules :: "SafetyPolicy \<Rightarrow> marine_daily \<Rightarrow> acc \<Rightarrow> acc" where
  "fc_marine_rules policy m a =
     fc_swell policy (swell_wave_height_max_m m)
       (fc_waves policy (wave_height_max_m m) a)"

definition assess_forecast :: "forecast \<Rightarrow> SafetyPolicy \<Rightarrow> string \<Rightarrow> verdict" where
  "assess_forecast fc policy fog_policy =
     (let m = or_empty empty_marine_daily (marine_daily fc)
      in if hourly fc = []
         then \<lparr> status = ''Unknown'', score = None,
                reasons = [''No hourly forecast available.''], tips = [] \<rparr>
         else finish policy
                (fc_marine_rules policy m
                  (scan_hours policy fog_policy (hourly fc) init_acc)))"

subsection \<open>Auxiliary notions for the properties\<close>

text \<open>
  A block of an evaluator is \<open>accumulating\<close> when it only appends to the two message
  lists and adds to the score, whatever the variables hold when it starts.
\<close>

definition accumulating :: "(acc \<Rightarrow> acc) \<Rightarrow> bool" where
  "accumulating f \<longleftrightarrow>
     (\<forall>a. f a = \<lparr> acc_reasons = acc_reasons a @ acc_reasons (f init_acc),
                  acc_tips = acc_tips a @ acc_tips (f init_acc),
                  acc_score = acc_score a + acc_score (f init_acc),
                  acc_hard_unsafe = acc_hard_unsafe a \<rparr>)"

text \<open>Steps 3 to 7 of \<^verbatim>\<open>assess_realtime\<close>: everything after the fog rule.\<close>

definition rt_after_fog ::
  "SafetyPolicy \<Rightarrow> rat \<Rightarrow> rat \<Rightarrow> rat \<Rightarrow> marine \<Rightarrow> pyval \<Rightarrow> acc \<Rightarrow> acc" where
  "rt_after_fog policy wind gust precip sea air_c a =
     rt_comfort air_c
       (rt_sea_rules policy sea
         (rt_precip policy precip
           (rt_wind policy wind gust a)))"

text \<open>The reading of the fixed scenario, and a reading taken during a thunderstorm.\<close>

definition scenario_reading :: reading where
  "scenario_reading =
     \<lparr> weather = Some \<lparr> weather_code = PNum 3, wind_speed_10m_kmh = Some 25,
                         wind_gusts_10m_kmh = Some 20, precipitation_mm = Some 0,
                         rain_mm = Some 0, temperature_2m_c = PNone \<rparr>,
       marine = Some \<lparr> wave_height_m = PNum (6 / 5), swell_wave_height_m = PNone,
                        swell_wave_period_s = PNone \<rparr> \<rparr>"

definition storm_weather :: weather where
  "storm_weather =
     \<lparr> weather_code = PNum 95, wind_speed_10m_kmh = Some 40,
       wind_gusts_10m_kmh = None, precipitation_mm = Some 6,
       rain_mm = None, temperature_2m_c = PNum 12 \<rparr>"

definition storm_reading :: reading where
  "storm_reading = \<lparr> weather = Some storm_weather, marine = None \<rparr>"

text \<open>
  The moderate-wind wording of a forecast hour, and the hours at which the moderate-wind
  rule is the only rule of the scan that fires.
\<close>

definition moderate_wind_reason_fc :: "weather \<Rightarrow> string" where
  "moderate_wind_reason_fc h =
     ''Moderate winds forecast ('' @ format_f 0 (or_zero (wind_speed_10m_kmh h)) @ ''/''
       @ format_f 0 (or_zero (wind_gusts_10m_kmh h)) @ '' km/h).''"

definition only_moderate_wind :: "SafetyPolicy \<Rightarrow> weather \<Rightarrow> bool" where
  "only_moderate_wind policy h =
     (let code = weather_code h;
          wind = or_zero (wind_speed_10m_kmh h);
          gust = or_zero (wind_gusts_10m_kmh h);
          precip = or_zero (precipitation_mm h) + or_zero (rain_mm h)
      in \<not> code_in code [95, 96, 99] \<and> \<not> code_in code [45, 48]
         \<and> wind < wind_strong policy \<and> gust < gust_strong policy
         \<and> (wind_mod policy \<le> wind \<or> gust_mod policy \<le> gust)
         \<and> precip < precip_heavy policy \<and> precip < precip_mod policy)"

text \<open>Policies none of whose weights is negative.\<close>

definition nonneg_weights :: "SafetyPolicy \<Rightarrow> bool" where
  "nonneg_weights policy \<longleftrightarrow>
     0 \<le> score_fog_realtime policy \<and> 0 \<le> score_fog_forecast policy
     \<and> 0 \<le> score_wind_strong policy \<and> 0 \<le> score_wind_mod policy
     \<and> 0 \<le> score_precip_heavy policy \<and> 0 \<le> score_precip_mod policy
     \<and> 0 \<le> score_wave_high policy \<and> 0 \<le> score_wave_elevated policy
     \<and> 0 \<le> score_wave_moderate policy \<and> 0 \<le> score_swell_large policy
     \<and> 0 \<le> score_swell_notable policy \<and> 0 \<le> score_surge_long_period policy
     \<and> 0 \<le> score_missing_waves policy"

text \<open>
  The hourly rules as the specification words them: "the same rule shapes as real-time
  (steps 1-4)", with the fog-forecast weight in place of the fog-realtime weight. This
  definition follows the specification, not the code; it is what the loop body of
  \<^verbatim>\<open>assess_forecast\<close> is compared with.
\<close>

definition spec_forecast_hour :: "SafetyPolicy \<Rightarrow> string \<Rightarrow> weather \<Rightarrow> acc \<Rightarrow> acc" where
  "spec_forecast_hour policy fog_policy h a =
     rt_weather_rules (policy\<lparr>score_fog_realtime := score_fog_forecast policy\<rparr>) fog_policy h a"

text \<open>What the fog rule adds to a score that is still 0, by fog policy.\<close>

definition fog_points :: "SafetyPolicy \<Rightarrow> string \<Rightarrow> int" where
  "fog_points policy fog_policy =
     (if fog_policy = ''score'' then score_fog_realtime policy
      else if fog_policy = ''caution'' then max 0 (band_caution_min policy)
      else 0)"

text \<open>Sample hours, forecasts and readings for the concrete instances below.\<close>

definition breezy_hour :: weather where
  "breezy_hour =
     \<lparr> weather_code = PNum 2, wind_speed_10m_kmh = Some 25, wind_gusts_10m_kmh = None,
       precipitation_mm = Some 0, rain_mm = None, temperature_2m_c = PNum 22 \<rparr>"

definition foggy_hour :: weather where
  "foggy_hour =
     \<lparr> weather_code = PNum 45, wind_speed_10m_kmh = Some 25, wind_gusts_10m_kmh = None,
       precipitation_mm = None, rain_mm = None, temperature_2m_c = PNum 14 \<rparr>"

definition thunder_hour :: weather where
  "thunder_hour =
     \<lparr> weather_code = PNum 96, wind_speed_10m_kmh = Some 35, wind_gusts_10m_kmh = Some 50,
       precipitation_mm = Some 4, rain_mm = Some 4, temperature_2m_c = PNum 18 \<rparr>"

definition gale_hour :: weather where
  "gale_hour =
     \<lparr> weather_code = PNum 3, wind_speed_10m_kmh = Some 60, wind_gusts_10m_kmh = Some 80,
       precipitation_mm = None, rain_mm = None, temperature_2m_c = PNone \<rparr>"

definition rainy_hour :: weather where
  "rainy_hour =
     \<lparr> weather_code = PNum 65, wind_speed_10m_kmh = Some 5, wind_gusts_10m_kmh = Some 8,
       precipitation_mm = Some 7, rain_mm = Some 7, temperature_2m_c = PNone \<rparr>"

definition storm_forecast :: forecast where
  "storm_forecast =
     \<lparr> hourly = [breezy_hour, foggy_hour, thunder_hour, gale_hour, rainy_hour],
       marine_daily = None \<rparr>"

definition breezy_forecast :: forecast where
  "breezy_forecast =
     \<lparr> hourly = [breezy_hour, breezy_hour, breezy_hour], marine_daily = None \<rparr>"

definition rough_reading :: reading where
  "rough_reading =
     \<lparr> weather = Some \<lparr> weather_code = PNum 3, wind_speed_10m_kmh = Some 40,
                         wind_gusts_10m_kmh = Some 50, precipitation_mm = Some 0,
                         rain_mm = Some 0, temperature_2m_c = PNum 20 \<rparr>,
       marine = Some \<lparr> wave_height_m = PNum 3, swell_wave_height_m = PNum (5 / 2),
                        swell_wave_period_s = PNum 12 \<rparr> \<rparr>"

definition mist_weather :: weather where
  "mist_weather =
     \<lparr> weather_code = PNum 48, wind_speed_10m_kmh = Some 22, wind_gusts_10m_kmh = Some 30,
       precipitation_mm = Some 1, rain_mm = Some 2, temperature_2m_c = PNum 9 \<rparr>"

definition mist_reading :: reading where
  "mist_reading =
     \<lparr> weather = Some mist_weather,
       marine = Some \<lparr> wave_height_m = PStr ''n/a'', swell_wave_height_m = PNum 3,
                        swell_wave_period_s = PNone \<rparr> \<rparr>"

section \<open>Properties of the deduplication loop\<close>

lemma dedupe_loop_set: "set (dedupe_loop seq seen out) = set out \<union> (set seq - seen)"
  by (induction seq arbitrary: seen out) auto

lemma dedupe_loop_distinct:
  "distinct out \<Longrightarrow> set out \<subseteq> seen \<Longrightarrow> distinct (dedupe_loop seq seen out)"
proof (induction seq arbitrary: seen out)
  case Nil
  then show ?case by simp
next
  case (Cons s seq)
  show ?case
  proof (cases "s \<in> seen")
    case True
    with Cons show ?thesis by simp
  next
    case False
    with Cons.prems have "distinct (out @ [s])" and "set (out @ [s]) \<subseteq> insert s seen"
      by auto
    then have "distinct (dedupe_loop seq (insert s seen) (out @ [s]))"
      by (rule Cons.IH)
    with False show ?thesis by simp
  qed
qed

lemma dedupe_loop_prefix:
  "\<forall>y\<in>set seq. y \<notin> B \<Longrightarrow>
   dedupe_loop seq (seen \<union> B) (pre @ out) = pre @ dedupe_loop seq seen out"
proof (induction seq arbitrary: seen out)
  case Nil
  then show ?case by simp
next
  case (Cons s seq)
  then have fresh: "s \<notin> B" and rest: "\<forall>y\<in>set seq. y \<notin> B"
    by simp_all
  show ?case
  proof (cases "s \<in> seen")
    case True
    with Cons.IH [OF rest] show ?thesis by simp
  next
    case False
    have "dedupe_loop seq (insert s seen \<union> B) (pre @ (out @ [s])) =
          pre @ dedupe_loop seq (insert s seen) (out @ [s])"
      by (rule Cons.IH [OF rest])
    with False fresh show ?thesis by simp
  qed
qed

lemma set_dedupe: "set (dedupe seq) = set seq"
  by (simp add: dedupe_def dedupe_loop_set)

lemma distinct_dedupe: "distinct (dedupe seq)"
  by (simp add: dedupe_def dedupe_loop_distinct)

lemma dedupe_Nil: "dedupe [] = []"
  by (simp add: dedupe_def)

lemma dedupe_Cons_fresh: "x \<notin> set xs \<Longrightarrow> dedupe (x # xs) = x # dedupe xs"
  using dedupe_loop_prefix [of xs "{x}" "{}" "[x]" "[]"] by (auto simp add: dedupe_def)

lemma dedupe_distinct_id: "distinct xs \<Longrightarrow> dedupe xs = xs"
  by (induction xs) (simp_all add: dedupe_Nil dedupe_Cons_fresh)

section \<open>Rules that only append and add\<close>

lemma accumulatingI:
  assumes "\<And>a. acc_reasons (f a) = acc_reasons a @ acc_reasons (f init_acc)"
    and "\<And>a. acc_tips (f a) = acc_tips a @ acc_tips (f init_acc)"
    and "\<And>a. acc_score (f a) = acc_score a + acc_score (f init_acc)"
    and "\<And>a. acc_hard_unsafe (f a) = acc_hard_unsafe a"
  shows "accumulating f"
  unfolding accumulating_def
proof
  fix a
  show "f a = \<lparr> acc_reasons = acc_reasons a @ acc_reasons (f init_acc),
                 acc_tips = acc_tips a @ acc_tips (f init_acc),
                 acc_score = acc_score a + acc_score (f init_acc),
                 acc_hard_unsafe = acc_hard_unsafe a \<rparr>"
    using assms(1) [of a] assms(2) [of a] assms(3) [of a] assms(4) [of a]
    by (cases "f a") simp
qed

lemma accumulatingD:
  "accumulating f \<Longrightarrow>
   f a = \<lparr> acc_reasons = acc_reasons a @ acc_reasons (f init_acc),
           acc_tips = acc_tips a @ acc_tips (f init_acc),
           acc_score = acc_score a + acc_score (f init_acc),
           acc_hard_unsafe = acc_hard_unsafe a \<rparr>"
  unfolding accumulating_def by (rule spec)

lemma accumulating_reasons:
  "accumulating f \<Longrightarrow> acc_reasons (f a) = acc_reasons a @ acc_reasons (f init_acc)"
  using accumulatingD [of f a] by (cases "f a") simp

lemma accumulating_tips:
  "accumulating f \<Longrightarrow> acc_tips (f a) = acc_tips a @ acc_tips (f init_acc)"
  using accumulatingD [of f a] by (cases "f a") simp

lemma accumulating_score:
  "accumulating f \<Longrightarrow> acc_score (f a) = acc_score a + acc_score (f init_acc)"
  using accumulatingD [of f a] by (cases "f a") simp

lemma accumulating_hard:
  "accumulating f \<Longrightarrow> acc_hard_unsafe (f a) = acc_hard_unsafe a"
  using accumulatingD [of f a] by (cases "f a") simp

lemma accumulating_comp:
  assumes f: "accumulating f" and g: "accumulating g"
  shows "accumulating (\<lambda>a. f (g a))"
proof (rule accumulatingI)
  fix a
  show "acc_reasons (f (g a)) = acc_reasons a @ acc_reasons (f (g init_acc))"
    using accumulating_reasons [OF f, of "g a"] accumulating_reasons [OF f, of "g init_acc"]
      accumulating_reasons [OF g, of a] by simp
  show "acc_tips (f (g a)) = acc_tips a @ acc_tips (f (g init_acc))"
    using accumulating_tips [OF f, of "g a"] accumulating_tips [OF f, of "g init_acc"]
      accumulating_tips [OF g, of a] by simp
  show "acc_score (f (g a)) = acc_score a + acc_score (f (g init_acc))"
    using accumulating_score [OF f, of "g a"] accumulating_score [OF f, of "g init_acc"]
      accumulating_score [OF g, of a] by simp
  show "acc_hard_unsafe (f (g a)) = acc_hard_unsafe a"
    using accumulating_hard [OF f, of "g a"] accumulating_hard [OF g, of a] by simp
qed

lemmas acc_ops = add_reason_def add_tip_def add_score_def init_acc_def

lemma accumulating_rt_wind: "accumulating (rt_wind policy wind gust)"
  by (rule accumulatingI) (simp_all add: rt_wind_def acc_ops)

lemma accumulating_rt_precip: "accumulating (rt_precip policy precip)"
  by (rule accumulatingI) (simp_all add: rt_precip_def acc_ops)

lemma accumulating_rt_waves: "accumulating (rt_waves policy wave_h)"
  by (rule accumulatingI; cases wave_h) (simp_all add: acc_ops)

lemma accumulating_rt_swell: "accumulating (rt_swell policy swell_h swell_p)"
  by (rule accumulatingI; cases swell_h; cases swell_p) (simp_all add: acc_ops)

lemma accumulating_rt_comfort: "accumulating (rt_comfort air_c)"
  by (rule accumulatingI; cases air_c) (simp_all add: acc_ops)

lemma accumulating_rt_sea_rules: "accumulating (rt_sea_rules policy sea)"
  using accumulating_comp [OF accumulating_rt_swell accumulating_rt_waves,
      of policy "swell_wave_height_m sea" "swell_wave_period_s sea" policy "wave_height_m sea"]
  by (simp add: rt_sea_rules_def [abs_def])

lemma accumulating_fc_wind: "accumulating (fc_wind policy wind gust)"
  by (rule accumulatingI) (simp_all add: fc_wind_def acc_ops)

lemma accumulating_fc_precip: "accumulating (fc_precip policy precip)"
  by (rule accumulatingI) (simp_all add: fc_precip_def acc_ops)

lemma accumulating_fc_waves: "accumulating (fc_waves policy wave_h)"
  by (rule accumulatingI; cases wave_h) (simp_all add: acc_ops)

lemma accumulating_fc_swell: "accumulating (fc_swell policy swell_h)"
  by (rule accumulatingI; cases swell_h) (simp_all add: acc_ops)

lemma accumulating_fc_marine_rules: "accumulating (fc_marine_rules policy m)"
  using accumulating_comp [OF accumulating_fc_swell accumulating_fc_waves,
      of policy "swell_wave_height_max_m m" policy "wave_height_max_m m"]
  by (simp add: fc_marine_rules_def [abs_def])

lemma assess_realtime_steps:
  "assess_realtime rd policy fog_policy =
     (let wx = or_empty empty_weather (weather rd)
      in finish policy
           (rt_after_fog policy (or_zero (wind_speed_10m_kmh wx)) (or_zero (wind_gusts_10m_kmh wx))
              (or_zero (precipitation_mm wx) + or_zero (rain_mm wx))
              (or_empty empty_marine (marine rd)) (temperature_2m_c wx)
              (rt_fog policy fog_policy (weather_code wx)
                (rt_thunderstorm policy (weather_code wx) init_acc))))"
  by (simp add: assess_realtime_def rt_weather_rules_def rt_after_fog_def Let_def)

lemma accumulating_rt_after_fog:
  "accumulating (rt_after_fog policy wind gust precip sea air_c)"
proof -
  have 1: "accumulating (\<lambda>a. rt_precip policy precip (rt_wind policy wind gust a))"
    by (rule accumulating_comp [OF accumulating_rt_precip accumulating_rt_wind])
  have 2: "accumulating (\<lambda>a. rt_sea_rules policy sea
             (rt_precip policy precip (rt_wind policy wind gust a)))"
    by (rule accumulating_comp [OF accumulating_rt_sea_rules 1])
  have "accumulating (\<lambda>a. rt_comfort air_c (rt_sea_rules policy sea
             (rt_precip policy precip (rt_wind policy wind gust a))))"
    by (rule accumulating_comp [OF accumulating_rt_comfort 2])
  then show ?thesis
    by (simp add: rt_after_fog_def [abs_def])
qed

text \<open>First letters of the messages of the rules after the fog rule.\<close>

lemma rt_wind_heads:
  "\<forall>r\<in>set (acc_reasons (rt_wind policy wind gust init_acc)). hd r \<in> set ''SMHEWLN''"
  "\<forall>t\<in>set (acc_tips (rt_wind policy wind gust init_acc)). hd t \<in> set ''EPAC''"
  by (simp_all add: rt_wind_def acc_ops)

lemma rt_precip_heads:
  "\<forall>r\<in>set (acc_reasons (rt_precip policy precip init_acc)). hd r \<in> set ''SMHEWLN''"
  "\<forall>t\<in>set (acc_tips (rt_precip policy precip init_acc)). hd t \<in> set ''EPAC''"
  by (simp_all add: rt_precip_def acc_ops)

lemma rt_waves_heads:
  "\<forall>r\<in>set (acc_reasons (rt_waves policy wave_h init_acc)). hd r \<in> set ''SMHEWLN''"
  "\<forall>t\<in>set (acc_tips (rt_waves policy wave_h init_acc)). hd t \<in> set ''EPAC''"
  by (cases wave_h; simp add: acc_ops wave_missing_reason_rt_def)+

lemma rt_swell_heads:
  "\<forall>r\<in>set (acc_reasons (rt_swell policy swell_h swell_p init_acc)). hd r \<in> set ''SMHEWLN''"
  "\<forall>t\<in>set (acc_tips (rt_swell policy swell_h swell_p init_acc)). hd t \<in> set ''EPAC''"
  by (cases swell_h; cases swell_p; simp add: acc_ops)+

lemma rt_comfort_heads:
  "\<forall>r\<in>set (acc_reasons (rt_comfort air_c init_acc)). hd r \<in> set ''SMHEWLN''"
  "\<forall>t\<in>set (acc_tips (rt_comfort air_c init_acc)). hd t \<in> set ''EPAC''"
  by (cases air_c; simp add: acc_ops)+

lemma rt_after_fog_reasons_heads:
  "\<forall>r\<in>set (acc_reasons (rt_after_fog policy wind gust precip sea air_c init_acc)).
     hd r \<in> set ''SMHEWLN''"
  unfolding rt_after_fog_def rt_sea_rules_def
  using rt_wind_heads(1) [of policy wind gust] rt_precip_heads(1) [of policy precip]
    rt_waves_heads(1) [of policy "wave_height_m sea"]
    rt_swell_heads(1) [of policy "swell_wave_height_m sea" "swell_wave_period_s sea"]
    rt_comfort_heads(1) [of air_c]
  by (subst accumulating_reasons [OF accumulating_rt_comfort],
      subst accumulating_reasons [OF accumulating_rt_swell],
      subst accumulating_reasons [OF accumulating_rt_waves],
      subst accumulating_reasons [OF accumulating_rt_precip]) auto

lemma rt_after_fog_tips_heads:
  "\<forall>t\<in>set (acc_tips (rt_after_fog policy wind gust precip sea air_c init_acc)).
     hd t \<in> set ''EPAC''"
  unfolding rt_after_fog_def rt_sea_rules_def
  using rt_wind_heads(2) [of policy wind gust] rt_precip_heads(2) [of policy precip]
    rt_waves_heads(2) [of policy "wave_height_m sea"]
    rt_swell_heads(2) [of policy "swell_wave_height_m sea" "swell_wave_period_s sea"]
    rt_comfort_heads(2) [of air_c]
  by (subst accumulating_tips [OF accumulating_rt_comfort],
      subst accumulating_tips [OF accumulating_rt_swell],
      subst accumulating_tips [OF accumulating_rt_waves],
      subst accumulating_tips [OF accumulating_rt_precip]) auto

section \<open>The verdict\<close>

lemma finish_simps:
  "status (finish policy a) = map_status (acc_score a) (acc_hard_unsafe a) policy"
  "score (finish policy a) = Some (if acc_hard_unsafe a then 100 else acc_score a)"
  "reasons (finish policy a) = dedupe (acc_reasons a)"
  "tips (finish policy a) = dedupe (acc_tips a)"
  by (simp_all add: finish_def)

lemma fc_hour_rules_tips: "acc_tips (fc_hour_rules policy fog_policy h a) = acc_tips a"
  by (simp add: fc_hour_rules_def fc_precip_def fc_wind_def fc_fog_def acc_ops Let_def)

lemma scan_hours_tips: "acc_tips (scan_hours policy fog_policy hs a) = acc_tips a"
  by (induction hs arbitrary: a) (simp_all add: fc_hour_rules_tips add_reason_def)

lemma fc_marine_rules_tips: "acc_tips (fc_marine_rules policy m a) = acc_tips a"
  unfolding fc_marine_rules_def
  by (cases "wave_height_max_m m"; cases "swell_wave_height_max_m m")
     (simp_all add: acc_ops)

section \<open>The hourly scan\<close>

lemma scan_hours_stops:
  "thunderstorm_hard_stop policy \<Longrightarrow> code_in (weather_code h) [95, 96, 99] \<Longrightarrow>
   scan_hours policy fog_policy (pre @ h # post) a = scan_hours policy fog_policy (pre @ [h]) a"
  by (induction pre arbitrary: a) simp_all

lemma scan_hours_append:
  "\<forall>x\<in>set pre. \<not> code_in (weather_code x) [95, 96, 99] \<Longrightarrow>
   scan_hours policy fog_policy (pre @ rest) a =
   scan_hours policy fog_policy rest (scan_hours policy fog_policy pre a)"
  by (induction pre arbitrary: a) simp_all

lemma scan_hours_hard:
  "thunderstorm_hard_stop policy \<Longrightarrow> \<exists>h\<in>set hs. code_in (weather_code h) [95, 96, 99] \<Longrightarrow>
   acc_hard_unsafe (scan_hours policy fog_policy hs a)"
  by (induction hs arbitrary: a) (auto simp add: add_reason_def)

lemma fc_hour_rules_only_moderate_wind:
  "only_moderate_wind policy h \<Longrightarrow>
   fc_hour_rules policy fog_policy h a =
     add_score (score_wind_mod policy) (add_reason (moderate_wind_reason_fc h) a)"
  by (simp add: only_moderate_wind_def fc_hour_rules_def fc_fog_def fc_wind_def fc_precip_def
      moderate_wind_reason_fc_def Let_def not_le [symmetric])

lemma scan_hours_only_moderate_wind:
  "\<forall>h\<in>set hs. only_moderate_wind policy h \<Longrightarrow>
   scan_hours policy fog_policy hs a =
     a\<lparr>acc_reasons := acc_reasons a @ map moderate_wind_reason_fc hs,
       acc_score := acc_score a + int (length hs) * score_wind_mod policy\<rparr>"
proof (induction hs arbitrary: a)
  case Nil
  then show ?case by simp
next
  case (Cons h hs)
  then have h: "only_moderate_wind policy h" and hs: "\<forall>x\<in>set hs. only_moderate_wind policy x"
    by simp_all
  from h have nostop: "\<not> code_in (weather_code h) [95, 96, 99]"
    by (simp add: only_moderate_wind_def Let_def)
  show ?case
    using nostop
    by (simp add: fc_hour_rules_only_moderate_wind [OF h] Cons.IH [OF hs] acc_ops algebra_simps)
qed

lemma distinct_count_list: "distinct xs \<Longrightarrow> x \<in> set xs \<Longrightarrow> count_list xs x = 1"
  by (induction xs) auto

lemma rt_thunderstorm_score: "acc_score (rt_thunderstorm policy code a) = acc_score a"
  by (simp add: rt_thunderstorm_def acc_ops)

lemma rt_fog_score_mono:
  "nonneg_weights policy \<Longrightarrow> acc_score a \<le> acc_score (rt_fog policy fog_policy code a)"
  by (simp add: rt_fog_def acc_ops nonneg_weights_def Let_def)

lemma rt_after_fog_score_nonneg:
  assumes "nonneg_weights policy"
  shows "0 \<le> acc_score (rt_after_fog policy wind gust precip sea air_c init_acc)"
proof -
  have 1: "0 \<le> acc_score (rt_wind policy wind gust init_acc)"
    using assms by (simp add: rt_wind_def acc_ops nonneg_weights_def)
  have 2: "0 \<le> acc_score (rt_precip policy precip init_acc)"
    using assms by (simp add: rt_precip_def acc_ops nonneg_weights_def)
  have 3: "0 \<le> acc_score (rt_waves policy w init_acc)" for w
    using assms by (cases w) (simp_all add: acc_ops nonneg_weights_def)
  have 4: "0 \<le> acc_score (rt_swell policy sh sp init_acc)" for sh sp
    using assms by (cases sh; cases sp) (simp_all add: acc_ops nonneg_weights_def)
  have 5: "0 \<le> acc_score (rt_comfort air_c init_acc)"
    by (cases air_c) (simp_all add: acc_ops)
  show ?thesis
    unfolding rt_after_fog_def rt_sea_rules_def
    using 1 2 3 [of "wave_height_m sea"]
      4 [of "swell_wave_height_m sea" "swell_wave_period_s sea"] 5
    by (subst accumulating_score [OF accumulating_rt_comfort],
        subst accumulating_score [OF accumulating_rt_swell],
        subst accumulating_score [OF accumulating_rt_waves],
        subst accumulating_score [OF accumulating_rt_precip]) simp
qed

lemma fc_fog_score_mono:
  "nonneg_weights policy \<Longrightarrow> acc_score a \<le> acc_score (fc_fog policy fog_policy code a)"
  by (simp add: fc_fog_def acc_ops nonneg_weights_def Let_def)

lemma fc_wind_score_mono:
  "nonneg_weights policy \<Longrightarrow> acc_score a \<le> acc_score (fc_wind policy wind gust a)"
  by (simp add: fc_wind_def acc_ops nonneg_weights_def)

lemma fc_precip_score_mono:
  "nonneg_weights policy \<Longrightarrow> acc_score a \<le> acc_score (fc_precip policy precip a)"
  by (simp add: fc_precip_def acc_ops nonneg_weights_def)

lemma fc_hour_rules_score_mono:
  assumes "nonneg_weights policy"
  shows "acc_score a \<le> acc_score (fc_hour_rules policy fog_policy h a)"
proof -
  let ?f = "fc_fog policy fog_policy (weather_code h) a"
  let ?w = "fc_wind policy (or_zero (wind_speed_10m_kmh h)) (or_zero (wind_gusts_10m_kmh h)) ?f"
  have "acc_score a \<le> acc_score ?f"
    by (rule fc_fog_score_mono [OF assms])
  also have "\<dots> \<le> acc_score ?w"
    by (rule fc_wind_score_mono [OF assms])
  also have "\<dots> \<le> acc_score (fc_precip policy
      (or_zero (precipitation_mm h) + or_zero (rain_mm h)) ?w)"
    by (rule fc_precip_score_mono [OF assms])
  finally show ?thesis
    by (simp add: fc_hour_rules_def Let_def)
qed

lemma scan_hours_score_mono:
  "nonneg_weights policy \<Longrightarrow> acc_score a \<le> acc_score (scan_hours policy fog_policy hs a)"
proof (induction hs arbitrary: a)
  case Nil
  then show ?case by simp
next
  case (Cons h hs)
  have "acc_score a \<le> acc_score (fc_hour_rules policy fog_policy h a)"
    by (rule fc_hour_rules_score_mono [OF Cons.prems])
  also have "\<dots> \<le> acc_score (scan_hours policy fog_policy hs (fc_hour_rules policy fog_policy h a))"
    by (rule Cons.IH [OF Cons.prems])
  finally show ?case
    by (simp add: add_reason_def)
qed

lemma fc_marine_rules_score_nonneg:
  assumes "nonneg_weights policy"
  shows "0 \<le> acc_score (fc_marine_rules policy m init_acc)"
proof -
  have 1: "0 \<le> acc_score (fc_waves policy w init_acc)" for w
    using assms by (cases w) (simp_all add: acc_ops nonneg_weights_def)
  have 2: "0 \<le> acc_score (fc_swell policy sh init_acc)" for sh
    using assms by (cases sh) (simp_all add: acc_ops nonneg_weights_def)
  show ?thesis
    unfolding fc_marine_rules_def
    using 1 [of "wave_height_max_m m"] 2 [of "swell_wave_height_max_m m"]
    by (subst accumulating_score [OF accumulating_fc_swell]) simp
qed

lemma accumulating_fc_fog:
  "fog_policy \<noteq> ''caution'' \<Longrightarrow> accumulating (fc_fog policy fog_policy code)"
  by (rule accumulatingI) (simp_all add: fc_fog_def acc_ops Let_def)

lemma accumulating_fc_hour_rules:
  assumes "fog_policy \<noteq> ''caution''"
  shows "accumulating (fc_hour_rules policy fog_policy h)"
proof -
  have 1: "accumulating (\<lambda>a. fc_wind policy (or_zero (wind_speed_10m_kmh h))
      (or_zero (wind_gusts_10m_kmh h)) (fc_fog policy fog_policy (weather_code h) a))"
    by (rule accumulating_comp [OF accumulating_fc_wind accumulating_fc_fog [OF assms]])
  have "accumulating (\<lambda>a. fc_precip policy (or_zero (precipitation_mm h) + or_zero (rain_mm h))
      (fc_wind policy (or_zero (wind_speed_10m_kmh h))
        (or_zero (wind_gusts_10m_kmh h)) (fc_fog policy fog_policy (weather_code h) a)))"
    by (rule accumulating_comp [OF accumulating_fc_precip 1])
  then show ?thesis
    by (simp add: fc_hour_rules_def [abs_def] Let_def)
qed

lemma scan_hours_score_sum:
  assumes "fog_policy \<noteq> ''caution''"
  shows "\<forall>h\<in>set hs. \<not> (thunderstorm_hard_stop policy \<and> code_in (weather_code h) [95, 96, 99]) \<Longrightarrow>
    acc_score (scan_hours policy fog_policy hs a) =
      acc_score a + (\<Sum>h\<leftarrow>hs. acc_score (fc_hour_rules policy fog_policy h init_acc))"
proof (induction hs arbitrary: a)
  case Nil
  then show ?case by simp
next
  case (Cons h hs)
  then have h: "\<not> (thunderstorm_hard_stop policy \<and> code_in (weather_code h) [95, 96, 99])"
    and hs: "\<forall>x\<in>set hs. \<not> (thunderstorm_hard_stop policy \<and> code_in (weather_code x) [95, 96, 99])"
    by simp_all
  have "acc_score (scan_hours policy fog_policy (h # hs) a) =
      acc_score (scan_hours policy fog_policy hs (fc_hour_rules policy fog_policy h a))"
    using h by auto
  also have "\<dots> = acc_score (fc_hour_rules policy fog_policy h a)
      + (\<Sum>x\<leftarrow>hs. acc_score (fc_hour_rules policy fog_policy x init_acc))"
    by (rule Cons.IH [OF hs])
  also have "acc_score (fc_hour_rules policy fog_policy h a) =
      acc_score a + acc_score (fc_hour_rules policy fog_policy h init_acc)"
    by (rule accumulating_score [OF accumulating_fc_hour_rules [OF assms]])
  finally show ?case by simp
qed


section \<open>Forecast hours against the real-time rules\<close>

lemma fc_rt_fog:
  "acc_score (fc_fog policy fog_policy code a) =
     acc_score (rt_fog (policy\<lparr>score_fog_realtime := score_fog_forecast policy\<rparr>)
                  fog_policy code a)
   \<and> length (acc_reasons (fc_fog policy fog_policy code a)) =
       length (acc_reasons (rt_fog (policy\<lparr>score_fog_realtime := score_fog_forecast policy\<rparr>)
                  fog_policy code a))
   \<and> acc_hard_unsafe (fc_fog policy fog_policy code a) = acc_hard_unsafe a
   \<and> acc_hard_unsafe (rt_fog (policy\<lparr>score_fog_realtime := score_fog_forecast policy\<rparr>)
                  fog_policy code a) = acc_hard_unsafe a"
  by (simp add: fc_fog_def rt_fog_def acc_ops Let_def)

lemma fc_rt_wind:
  assumes "acc_score a = acc_score b" and "length (acc_reasons a) = length (acc_reasons b)"
  shows "acc_score (fc_wind policy wind gust a) =
     acc_score (rt_wind (policy\<lparr>score_fog_realtime := w\<rparr>) wind gust b)
   \<and> length (acc_reasons (fc_wind policy wind gust a)) =
       length (acc_reasons (rt_wind (policy\<lparr>score_fog_realtime := w\<rparr>) wind gust b))"
  using assms by (simp add: fc_wind_def rt_wind_def acc_ops)

lemma fc_rt_precip:
  assumes "acc_score a = acc_score b" and "length (acc_reasons a) = length (acc_reasons b)"
  shows "acc_score (fc_precip policy precip a) =
     acc_score (rt_precip (policy\<lparr>score_fog_realtime := w\<rparr>) precip b)
   \<and> length (acc_reasons (fc_precip policy precip a)) =
       length (acc_reasons (rt_precip (policy\<lparr>score_fog_realtime := w\<rparr>) precip b))"
  using assms by (simp add: fc_precip_def rt_precip_def acc_ops)

lemma fc_hour_rules_vs_realtime:
  assumes "\<not> (thunderstorm_hard_stop policy \<and> code_in (weather_code h) [95, 96, 99])"
  shows "acc_score (fc_hour_rules policy fog_policy h a) =
           acc_score (spec_forecast_hour policy fog_policy h a)
    \<and> length (acc_reasons (fc_hour_rules policy fog_policy h a)) =
        length (acc_reasons (spec_forecast_hour policy fog_policy h a))"
proof -
  let ?p = "policy\<lparr>score_fog_realtime := score_fog_forecast policy\<rparr>"
  have t: "rt_thunderstorm ?p (weather_code h) a = a"
    using assms by (auto simp add: rt_thunderstorm_def)
  note f = fc_rt_fog [of policy fog_policy "weather_code h" a]
  note w = fc_rt_wind [OF f [THEN conjunct1] f [THEN conjunct2, THEN conjunct1],
      of policy "or_zero (wind_speed_10m_kmh h)" "or_zero (wind_gusts_10m_kmh h)"
         "score_fog_forecast policy"]
  note p = fc_rt_precip [OF w [THEN conjunct1] w [THEN conjunct2],
      of policy "or_zero (precipitation_mm h) + or_zero (rain_mm h)" "score_fog_forecast policy"]
  show ?thesis
    using p by (simp add: fc_hour_rules_def spec_forecast_hour_def rt_weather_rules_def Let_def t)
qed

lemma rt_weather_rules_hard:
  "acc_hard_unsafe (rt_weather_rules policy fog_policy h a) \<longleftrightarrow>
     acc_hard_unsafe a \<or> thunderstorm_hard_stop policy \<and> code_in (weather_code h) [95, 96, 99]"
proof -
  have "acc_hard_unsafe (rt_weather_rules policy fog_policy h a) =
      acc_hard_unsafe (rt_thunderstorm policy (weather_code h) a)"
    unfolding rt_weather_rules_def Let_def
    by (subst accumulating_hard [OF accumulating_rt_precip],
        subst accumulating_hard [OF accumulating_rt_wind])
       (simp add: rt_fog_def acc_ops Let_def)
  then show ?thesis
    by (auto simp add: rt_thunderstorm_def acc_ops)
qed

lemma fc_hour_rules_hard:
  "acc_hard_unsafe (fc_hour_rules policy fog_policy h a) = acc_hard_unsafe a"
  unfolding fc_hour_rules_def Let_def
  by (subst accumulating_hard [OF accumulating_fc_precip],
      subst accumulating_hard [OF accumulating_fc_wind])
     (simp add: fc_fog_def acc_ops Let_def)

lemma rt_fog_fires:
  assumes "c \<in> {45, 48}"
  shows "rt_fog policy fog_policy (PNum c) a =
     (add_tip fog_tip_rt (add_reason fog_reason_rt a))
       \<lparr>acc_score := (if fog_policy = ''score'' then acc_score a + score_fog_realtime policy
                       else if fog_policy = ''caution''
                       then max (acc_score a) (band_caution_min policy)
                       else acc_score a)\<rparr>"
  using assms by (auto simp add: rt_fog_def acc_ops Let_def)

section \<open>Verified claims\<close>

text \<open>
  C1. A reading whose weather code is 95, 96 or 99, assessed under a policy with the
  thunderstorm hard stop enabled, gets status Unsafe and score 100 whatever its other
  fields hold. The remaining rules still run: the reasons of the verdict are the
  thunderstorm reason followed by exactly the reasons the same reading yields without
  its weather code, and the tips are the tips of that reading.
\<close>

theorem realtime_thunderstorm_unsafe:
  assumes "thunderstorm_hard_stop policy"
    and "weather rd = Some wx"
    and "weather_code wx = PNum c"
    and "c \<in> {95, 96, 99}"
  shows "status (assess_realtime rd policy fog_policy) = ''Unsafe''
    \<and> score (assess_realtime rd policy fog_policy) = Some 100
    \<and> reasons (assess_realtime rd policy fog_policy) =
        ''Thunderstorm in area (lightning risk).''
          # reasons (assess_realtime (rd\<lparr>weather := Some (wx\<lparr>weather_code := PNone\<rparr>)\<rparr>)
                      policy fog_policy)
    \<and> tips (assess_realtime rd policy fog_policy) =
        tips (assess_realtime (rd\<lparr>weather := Some (wx\<lparr>weather_code := PNone\<rparr>)\<rparr>)
                policy fog_policy)"
proof -
  let ?T = "''Thunderstorm in area (lightning risk).''"
  let ?tail = "rt_after_fog policy (or_zero (wind_speed_10m_kmh wx))
      (or_zero (wind_gusts_10m_kmh wx))
      (or_zero (precipitation_mm wx) + or_zero (rain_mm wx))
      (or_empty empty_marine (marine rd)) (temperature_2m_c wx)"
  let ?a1 = "init_acc\<lparr>acc_reasons := [?T], acc_hard_unsafe := True\<rparr>"
  have start: "rt_fog policy fog_policy (PNum c) (rt_thunderstorm policy (PNum c) init_acc) = ?a1"
    using assms(1,4) by (auto simp add: rt_fog_def rt_thunderstorm_def acc_ops)
  have v: "assess_realtime rd policy fog_policy = finish policy (?tail ?a1)"
    using assms(2,3) start by (simp add: assess_realtime_steps)
  have v': "assess_realtime (rd\<lparr>weather := Some (wx\<lparr>weather_code := PNone\<rparr>)\<rparr>) policy fog_policy
      = finish policy (?tail init_acc)"
    by (simp add: assess_realtime_steps rt_fog_def rt_thunderstorm_def)
  note acc = accumulating_rt_after_fog
  have hard: "acc_hard_unsafe (?tail ?a1)"
    by (simp add: accumulating_hard [OF acc])
  have rs: "acc_reasons (?tail ?a1) = ?T # acc_reasons (?tail init_acc)"
    by (subst accumulating_reasons [OF acc]) simp
  have ts: "acc_tips (?tail ?a1) = acc_tips (?tail init_acc)"
    by (subst accumulating_tips [OF acc]) (simp add: init_acc_def)
  have fresh: "?T \<notin> set (acc_reasons (?tail init_acc))"
    using rt_after_fog_reasons_heads by fastforce
  show ?thesis
    unfolding v v' finish_simps rs ts
    using hard fresh by (simp add: map_status_def dedupe_Cons_fresh)
qed

theorem realtime_thunderstorm_unsafe_witness:
  "thunderstorm_hard_stop default_policy
   \<and> weather storm_reading = Some storm_weather
   \<and> weather_code storm_weather = PNum 95
   \<and> status (assess_realtime storm_reading default_policy ''score'') = ''Unsafe''
   \<and> score (assess_realtime storm_reading default_policy ''score'') = Some 100
   \<and> reasons (assess_realtime storm_reading default_policy ''score'') =
       ''Thunderstorm in area (lightning risk).''
         # reasons (assess_realtime
                      (storm_reading\<lparr>weather := Some (storm_weather\<lparr>weather_code := PNone\<rparr>)\<rparr>)
                      default_policy ''score'')
   \<and> tips (assess_realtime storm_reading default_policy ''score'') =
       tips (assess_realtime
               (storm_reading\<lparr>weather := Some (storm_weather\<lparr>weather_code := PNone\<rparr>)\<rparr>)
               default_policy ''score'')"
proof -
  have h1: "thunderstorm_hard_stop default_policy"
    by (simp add: default_policy_def)
  have h2: "weather storm_reading = Some storm_weather"
    by (simp add: storm_reading_def)
  have h3: "weather_code storm_weather = PNum 95"
    by (simp add: storm_weather_def)
  have h4: "(95::rat) \<in> {95, 96, 99}"
    by simp
  show ?thesis
    using realtime_thunderstorm_unsafe [OF h1 h2 h3 h4, of "''score''"] h1 h2 h3 by simp
qed

text \<open>
  C2. A forecast whose hourly sequence is empty gets exactly the verdict Unknown with a
  null score, the single reason "No hourly forecast available." and no tips, whatever the
  daily marine summary, the policy and the fog policy are.
\<close>

theorem forecast_empty_hourly_unknown:
  "hourly fc = [] \<Longrightarrow>
   assess_forecast fc policy fog_policy =
     \<lparr> status = ''Unknown'', score = None,
       reasons = [''No hourly forecast available.''], tips = [] \<rparr>"
  by (simp add: assess_forecast_def)

theorem forecast_empty_hourly_unknown_witness:
  "hourly \<lparr> hourly = [],
            marine_daily = Some \<lparr> wave_height_max_m = PNum 3,
                                   swell_wave_height_max_m = PNum 3 \<rparr> \<rparr> = []
   \<and> assess_forecast
       \<lparr> hourly = [],
         marine_daily = Some \<lparr> wave_height_max_m = PNum 3,
                                swell_wave_height_max_m = PNum 3 \<rparr> \<rparr>
       default_policy ''score'' =
     \<lparr> status = ''Unknown'', score = None,
       reasons = [''No hourly forecast available.''], tips = [] \<rparr>"
  using forecast_empty_hourly_unknown
    [of "\<lparr> hourly = [],
           marine_daily = Some \<lparr> wave_height_max_m = PNum 3,
                                  swell_wave_height_max_m = PNum 3 \<rparr> \<rparr>"
        default_policy "''score''"]
  by simp

text \<open>
  C3. In a forecast, an hour whose weather code is 95, 96 or 99 (hard stop enabled) ends
  the scan: the verdict is the one of the forecast cut after that hour, so no later hour
  contributes to score or reasons; \<^verbatim>\<open>hard_unsafe\<close> is set, the score is 100 and the
  status Unsafe. When it is the first such hour, the scan leaves exactly what the earlier
  hours accumulated plus the thunderstorm reason. The daily marine rules still run.
\<close>

theorem forecast_thunderstorm_stops_scan:
  assumes "thunderstorm_hard_stop policy"
    and "code_in (weather_code h) [95, 96, 99]"
    and "hourly fc = pre @ h # post"
  shows "assess_forecast fc policy fog_policy =
           assess_forecast (fc\<lparr>hourly := pre @ [h]\<rparr>) policy fog_policy
    \<and> scan_hours policy fog_policy (hourly fc) init_acc =
        scan_hours policy fog_policy (pre @ [h]) init_acc
    \<and> acc_hard_unsafe (scan_hours policy fog_policy (hourly fc) init_acc)
    \<and> score (assess_forecast fc policy fog_policy) = Some 100
    \<and> status (assess_forecast fc policy fog_policy) = ''Unsafe''
    \<and> ((\<forall>x\<in>set pre. \<not> code_in (weather_code x) [95, 96, 99]) \<longrightarrow>
          scan_hours policy fog_policy (hourly fc) init_acc =
            (add_reason ''Thunderstorm forecast (lightning risk).''
               (scan_hours policy fog_policy pre init_acc))\<lparr>acc_hard_unsafe := True\<rparr>)"
proof -
  have stop: "scan_hours policy fog_policy (hourly fc) init_acc =
      scan_hours policy fog_policy (pre @ [h]) init_acc"
    unfolding assms(3) using assms(1,2) by (rule scan_hours_stops)
  have hard: "acc_hard_unsafe (scan_hours policy fog_policy (hourly fc) init_acc)"
    using assms by (intro scan_hours_hard) auto
  have hard': "acc_hard_unsafe (fc_marine_rules policy m
      (scan_hours policy fog_policy (hourly fc) init_acc))" for m
    using hard by (simp add: accumulating_hard [OF accumulating_fc_marine_rules])
  have same: "assess_forecast fc policy fog_policy =
      assess_forecast (fc\<lparr>hourly := pre @ [h]\<rparr>) policy fog_policy"
    using assms(3) stop by (simp add: assess_forecast_def)
  have sc: "score (assess_forecast fc policy fog_policy) = Some 100"
    using assms(3) hard' by (simp add: assess_forecast_def finish_simps)
  have st: "status (assess_forecast fc policy fog_policy) = ''Unsafe''"
    using assms(3) hard' by (simp add: assess_forecast_def finish_simps map_status_def)
  have first: "(\<forall>x\<in>set pre. \<not> code_in (weather_code x) [95, 96, 99]) \<longrightarrow>
      scan_hours policy fog_policy (hourly fc) init_acc =
      (add_reason ''Thunderstorm forecast (lightning risk).''
         (scan_hours policy fog_policy pre init_acc))\<lparr>acc_hard_unsafe := True\<rparr>"
    using assms by (simp add: scan_hours_append)
  show ?thesis
    by (rule conjI [OF same conjI [OF stop conjI [OF hard conjI [OF sc conjI [OF st first]]]]])
qed

theorem forecast_thunderstorm_stops_scan_witness:
  "thunderstorm_hard_stop default_policy
   \<and> code_in (weather_code thunder_hour) [95, 96, 99]
   \<and> hourly storm_forecast = [breezy_hour, foggy_hour] @ thunder_hour # [gale_hour, rainy_hour]
   \<and> \<not> code_in (weather_code breezy_hour) [95, 96, 99]
   \<and> \<not> code_in (weather_code foggy_hour) [95, 96, 99]
   \<and> assess_forecast storm_forecast default_policy ''score'' =
       assess_forecast (storm_forecast\<lparr>hourly := [breezy_hour, foggy_hour] @ [thunder_hour]\<rparr>)
         default_policy ''score''
   \<and> acc_hard_unsafe (scan_hours default_policy ''score'' (hourly storm_forecast) init_acc)
   \<and> score (assess_forecast storm_forecast default_policy ''score'') = Some 100
   \<and> status (assess_forecast storm_forecast default_policy ''score'') = ''Unsafe''
   \<and> scan_hours default_policy ''score'' (hourly storm_forecast) init_acc =
       (add_reason ''Thunderstorm forecast (lightning risk).''
          (scan_hours default_policy ''score'' [breezy_hour, foggy_hour] init_acc))
        \<lparr>acc_hard_unsafe := True\<rparr>"
proof -
  have h1: "thunderstorm_hard_stop default_policy"
    by (simp add: default_policy_def)
  have h2: "code_in (weather_code thunder_hour) [95, 96, 99]"
    by (simp add: thunder_hour_def)
  have h3: "hourly storm_forecast =
      [breezy_hour, foggy_hour] @ thunder_hour # [gale_hour, rainy_hour]"
    by (simp add: storm_forecast_def)
  have h4: "\<forall>x\<in>set [breezy_hour, foggy_hour]. \<not> code_in (weather_code x) [95, 96, 99]"
    by (simp add: breezy_hour_def foggy_hour_def)
  have h5: "\<not> code_in (weather_code breezy_hour) [95, 96, 99]"
    and h6: "\<not> code_in (weather_code foggy_hour) [95, 96, 99]"
    using h4 by simp_all
  show ?thesis
    using forecast_thunderstorm_stops_scan [OF h1 h2 h3, of "''score''"] h1 h2 h3 h4 h5 h6
    by blast
qed

text \<open>
  C4. The hourly rules add to the score hour after hour, with no cap per rule: when every
  hour of a forecast triggers the moderate-wind rule (and nothing else), the score is the
  moderate-wind weight times the number of hours, plus what the daily marine rules add;
  the scan adds that amount to whatever the score was. More generally, without a hard stop
  and with a fog policy other than "caution" (whose fog rule is a floor), the scan adds the
  sum of the single-hour contributions. The reasons of the verdict are distinct, and the
  moderate-wind wording of each hour occurs in them exactly once, however many hours
  produced it.
\<close>

theorem forecast_moderate_wind_accumulates:
  assumes "hourly fc = hs" and "hs \<noteq> []"
    and "\<forall>h\<in>set hs. only_moderate_wind policy h"
  shows "score (assess_forecast fc policy fog_policy) =
           Some (int (length hs) * score_wind_mod policy
                 + acc_score (fc_marine_rules policy
                     (or_empty empty_marine_daily (marine_daily fc)) init_acc))
    \<and> scan_hours policy fog_policy hs a =
        a\<lparr>acc_reasons := acc_reasons a @ map moderate_wind_reason_fc hs,
          acc_score := acc_score a + int (length hs) * score_wind_mod policy\<rparr>
    \<and> (fog_policy \<noteq> ''caution''
        \<and> (\<forall>g\<in>set gs. \<not> (thunderstorm_hard_stop policy
                              \<and> code_in (weather_code g) [95, 96, 99])) \<longrightarrow>
        acc_score (scan_hours policy fog_policy gs b) =
          acc_score b + (\<Sum>g\<leftarrow>gs. acc_score (fc_hour_rules policy fog_policy g init_acc)))
    \<and> distinct (reasons (assess_forecast fc policy fog_policy))
    \<and> (\<forall>h\<in>set hs.
          count_list (reasons (assess_forecast fc policy fog_policy))
            (moderate_wind_reason_fc h) = 1)"
proof -
  let ?m = "or_empty empty_marine_daily (marine_daily fc)"
  let ?s = "scan_hours policy fog_policy hs init_acc"
  note scan = scan_hours_only_moderate_wind [OF assms(3), of fog_policy]
  note acc = accumulating_fc_marine_rules [of policy ?m]
  have v: "assess_forecast fc policy fog_policy = finish policy (fc_marine_rules policy ?m ?s)"
    using assms(1,2) by (simp add: assess_forecast_def)
  have hard: "\<not> acc_hard_unsafe (fc_marine_rules policy ?m ?s)"
    by (simp add: accumulating_hard [OF acc] scan init_acc_def)
  have sc: "acc_score (fc_marine_rules policy ?m ?s) =
      int (length hs) * score_wind_mod policy + acc_score (fc_marine_rules policy ?m init_acc)"
    by (subst accumulating_score [OF acc]) (simp add: scan init_acc_def)
  have rs: "acc_reasons (fc_marine_rules policy ?m ?s) =
      map moderate_wind_reason_fc hs @ acc_reasons (fc_marine_rules policy ?m init_acc)"
    by (subst accumulating_reasons [OF acc]) (simp add: scan init_acc_def)
  have 1: "score (assess_forecast fc policy fog_policy) =
      Some (int (length hs) * score_wind_mod policy
            + acc_score (fc_marine_rules policy ?m init_acc))"
    using hard sc by (simp add: v finish_simps)
  have 3: "distinct (reasons (assess_forecast fc policy fog_policy))"
    by (simp add: v finish_simps distinct_dedupe)
  have 4: "\<forall>h\<in>set hs.
      count_list (reasons (assess_forecast fc policy fog_policy)) (moderate_wind_reason_fc h) = 1"
  proof
    fix h assume "h \<in> set hs"
    then have "moderate_wind_reason_fc h \<in> set (reasons (assess_forecast fc policy fog_policy))"
      by (simp add: v finish_simps set_dedupe rs)
    with 3 show "count_list (reasons (assess_forecast fc policy fog_policy))
        (moderate_wind_reason_fc h) = 1"
      by (rule distinct_count_list)
  qed
  have 2: "fog_policy \<noteq> ''caution''
      \<and> (\<forall>g\<in>set gs. \<not> (thunderstorm_hard_stop policy
                            \<and> code_in (weather_code g) [95, 96, 99])) \<longrightarrow>
      acc_score (scan_hours policy fog_policy gs b) =
        acc_score b + (\<Sum>g\<leftarrow>gs. acc_score (fc_hour_rules policy fog_policy g init_acc))"
    using scan_hours_score_sum [of fog_policy gs policy b] by blast
  show ?thesis
    by (rule conjI [OF 1 conjI [OF scan_hours_only_moderate_wind [OF assms(3)]
          conjI [OF 2 conjI [OF 3 4]]]])
qed

theorem forecast_moderate_wind_accumulates_witness:
  "hourly breezy_forecast = [breezy_hour, breezy_hour, breezy_hour]
   \<and> only_moderate_wind default_policy breezy_hour
   \<and> score (assess_forecast breezy_forecast default_policy ''score'') = Some (3 * 15 + 5)
   \<and> acc_score (scan_hours default_policy ''score''
         [breezy_hour, breezy_hour, breezy_hour] init_acc) = 3 * 15
   \<and> acc_score (scan_hours default_policy ''score'' [breezy_hour, foggy_hour] init_acc) =
       acc_score init_acc
       + (\<Sum>g\<leftarrow>[breezy_hour, foggy_hour].
            acc_score (fc_hour_rules default_policy ''score'' g init_acc))
   \<and> distinct (reasons (assess_forecast breezy_forecast default_policy ''score''))
   \<and> count_list (reasons (assess_forecast breezy_forecast default_policy ''score''))
         (moderate_wind_reason_fc breezy_hour) = 1"
proof -
  have h1: "hourly breezy_forecast = [breezy_hour, breezy_hour, breezy_hour]"
    by (simp add: breezy_forecast_def)
  have h2: "[breezy_hour, breezy_hour, breezy_hour] \<noteq> []"
    by simp
  have b: "only_moderate_wind default_policy breezy_hour"
    by (simp add: only_moderate_wind_def default_policy_def breezy_hour_def)
  then have h3: "\<forall>h\<in>set [breezy_hour, breezy_hour, breezy_hour].
      only_moderate_wind default_policy h"
    by simp
  have h4: "''score'' \<noteq> ''caution''
      \<and> (\<forall>g\<in>set [breezy_hour, foggy_hour].
            \<not> (thunderstorm_hard_stop default_policy \<and> code_in (weather_code g) [95, 96, 99]))"
    by (simp add: breezy_hour_def foggy_hour_def)
  have m: "acc_score (fc_marine_rules default_policy
      (or_empty empty_marine_daily (marine_daily breezy_forecast)) init_acc) = 5"
    by (simp add: breezy_forecast_def empty_marine_daily_def fc_marine_rules_def
        default_policy_def acc_ops)
  have w: "score_wind_mod default_policy = 15"
    by (simp add: default_policy_def)
  note inst = forecast_moderate_wind_accumulates [OF h1 h2 h3,
      of "''score''" init_acc "[breezy_hour, foggy_hour]" init_acc]
  from inst have "score (assess_forecast breezy_forecast default_policy ''score'') =
      Some (int (length [breezy_hour, breezy_hour, breezy_hour]) * score_wind_mod default_policy
            + acc_score (fc_marine_rules default_policy
                (or_empty empty_marine_daily (marine_daily breezy_forecast)) init_acc))"
    by (rule conjunct1)
  then have c1: "score (assess_forecast breezy_forecast default_policy ''score'') =
      Some (3 * 15 + 5)"
    by (simp only: m w) simp
  from inst have "scan_hours default_policy ''score''
      [breezy_hour, breezy_hour, breezy_hour] init_acc =
      init_acc\<lparr>acc_reasons := acc_reasons init_acc
          @ map moderate_wind_reason_fc [breezy_hour, breezy_hour, breezy_hour],
        acc_score := acc_score init_acc
          + int (length [breezy_hour, breezy_hour, breezy_hour])
            * score_wind_mod default_policy\<rparr>"
    by (rule conjunct2 [THEN conjunct1])
  then have c2: "acc_score (scan_hours default_policy ''score''
      [breezy_hour, breezy_hour, breezy_hour] init_acc) = 3 * 15"
    by (simp only: w) (simp add: init_acc_def)
  from inst h4 have c3: "acc_score (scan_hours default_policy ''score''
      [breezy_hour, foggy_hour] init_acc) =
      acc_score init_acc
      + (\<Sum>g\<leftarrow>[breezy_hour, foggy_hour].
           acc_score (fc_hour_rules default_policy ''score'' g init_acc))"
    by blast
  from inst have c4: "distinct (reasons (assess_forecast breezy_forecast default_policy ''score''))"
    by blast
  from inst have "\<forall>h\<in>set [breezy_hour, breezy_hour, breezy_hour].
      count_list (reasons (assess_forecast breezy_forecast default_policy ''score''))
        (moderate_wind_reason_fc h) = 1"
    by blast
  then have c5: "count_list (reasons (assess_forecast breezy_forecast default_policy ''score''))
      (moderate_wind_reason_fc breezy_hour) = 1"
    by simp
  show ?thesis
    by (rule conjI [OF h1 conjI [OF b conjI [OF c1 conjI [OF c2 conjI [OF c3 conjI [OF c4 c5]]]]]])
qed

text \<open>
  C5. As stated the claim fails: the score is not capped at 100. Under the default policy
  a reading with strong wind, high waves and a large swell scores 40 + 50 + 40 = 130.
\<close>

theorem score_above_100_counterexample:
  "score (assess_realtime rough_reading default_policy ''score'') = Some 130
   \<and> status (assess_realtime rough_reading default_policy ''score'') \<noteq> ''Unknown''
   \<and> \<not> (130::int) \<le> 100"
  by code_simp

text \<open>
  C5, amended. For every input and every policy whose weights are not negative, the score
  of a verdict is an integer that is at least 0, or null exactly when the status is
  Unknown (which only a forecast without hours gets).
\<close>

theorem score_nonneg_or_null:
  assumes "nonneg_weights policy"
  shows "(\<exists>s. score (assess_realtime rd policy fog_policy) = Some s \<and> 0 \<le> s)
    \<and> status (assess_realtime rd policy fog_policy) \<noteq> ''Unknown''
    \<and> (score (assess_forecast fc policy fog_policy) = None
        \<longleftrightarrow> status (assess_forecast fc policy fog_policy) = ''Unknown'')
    \<and> (\<forall>s. score (assess_forecast fc policy fog_policy) = Some s \<longrightarrow> 0 \<le> s)"
proof -
  let ?wx = "or_empty empty_weather (weather rd)"
  let ?a = "rt_fog policy fog_policy (weather_code ?wx)
      (rt_thunderstorm policy (weather_code ?wx) init_acc)"
  let ?tail = "rt_after_fog policy (or_zero (wind_speed_10m_kmh ?wx))
      (or_zero (wind_gusts_10m_kmh ?wx))
      (or_zero (precipitation_mm ?wx) + or_zero (rain_mm ?wx))
      (or_empty empty_marine (marine rd)) (temperature_2m_c ?wx)"
  have a: "0 \<le> acc_score ?a"
    using rt_fog_score_mono [OF assms, of "rt_thunderstorm policy (weather_code ?wx) init_acc"
        fog_policy "weather_code ?wx"]
    by (simp add: rt_thunderstorm_score init_acc_def)
  have "0 \<le> acc_score (?tail ?a)"
    using a rt_after_fog_score_nonneg [OF assms]
    by (subst accumulating_score [OF accumulating_rt_after_fog]) simp
  then have rt: "\<exists>s. score (assess_realtime rd policy fog_policy) = Some s \<and> 0 \<le> s"
    by (simp add: assess_realtime_steps Let_def finish_simps)
  have st: "status (assess_realtime rd policy fog_policy) \<noteq> ''Unknown''"
    by (simp add: assess_realtime_steps Let_def finish_simps map_status_def)
  let ?m = "or_empty empty_marine_daily (marine_daily fc)"
  let ?s = "scan_hours policy fog_policy (hourly fc) init_acc"
  have "0 \<le> acc_score ?s"
    using scan_hours_score_mono [OF assms, of init_acc fog_policy "hourly fc"]
    by (simp add: init_acc_def)
  then have "0 \<le> acc_score (fc_marine_rules policy ?m ?s)"
    using fc_marine_rules_score_nonneg [OF assms, of ?m]
    by (subst accumulating_score [OF accumulating_fc_marine_rules]) simp
  then have fc: "\<forall>s. score (assess_forecast fc policy fog_policy) = Some s \<longrightarrow> 0 \<le> s"
    by (simp add: assess_forecast_def finish_simps)
  have unk: "score (assess_forecast fc policy fog_policy) = None
      \<longleftrightarrow> status (assess_forecast fc policy fog_policy) = ''Unknown''"
    by (simp add: assess_forecast_def finish_simps map_status_def)
  show ?thesis
    by (rule conjI [OF rt conjI [OF st conjI [OF unk fc]]])
qed

theorem score_nonneg_or_null_witness:
  "nonneg_weights default_policy
   \<and> (\<exists>s. score (assess_realtime rough_reading default_policy ''score'') = Some s \<and> 0 \<le> s)
   \<and> status (assess_realtime rough_reading default_policy ''score'') \<noteq> ''Unknown''
   \<and> score (assess_forecast storm_forecast default_policy ''score'') \<noteq> None
   \<and> status (assess_forecast storm_forecast default_policy ''score'') \<noteq> ''Unknown''
   \<and> status (assess_forecast (storm_forecast\<lparr>hourly := []\<rparr>) default_policy ''score'')
       = ''Unknown''
   \<and> score (assess_forecast (storm_forecast\<lparr>hourly := []\<rparr>) default_policy ''score'')
       = None"
proof -
  have h: "nonneg_weights default_policy"
    by (simp add: nonneg_weights_def default_policy_def)
  have nonempty: "status (assess_forecast storm_forecast default_policy ''score'')
      \<noteq> ''Unknown''"
    by (simp add: assess_forecast_def storm_forecast_def finish_simps map_status_def)
  have empty: "status (assess_forecast (storm_forecast\<lparr>hourly := []\<rparr>)
      default_policy ''score'') = ''Unknown''"
    by (simp add: assess_forecast_def)
  show ?thesis
    using score_nonneg_or_null [OF h, of rough_reading "''score''" storm_forecast]
      score_nonneg_or_null [OF h, of rough_reading "''score''"
        "storm_forecast\<lparr>hourly := []\<rparr>"] h nonempty empty
    by blast
qed

text \<open>
  C6. As stated the claim fails. The hourly rules of the forecast are not the real-time
  steps 1 to 4 with another fog weight: for a foggy hour with moderate wind the real-time
  rules append two tips and the forecast none, the reasons are worded differently, and at
  a thunderstorm hour the forecast leaves the loop before its fog, wind and precipitation
  rules, which the real-time steps still apply.
\<close>

theorem forecast_hour_not_realtime_counterexample:
  "acc_tips (scan_hours default_policy ''score'' [foggy_hour] init_acc) = []
   \<and> acc_tips (spec_forecast_hour default_policy ''score'' foggy_hour init_acc) =
       [''Use dive flag + SMB; delay until fog clears or add surface support.'',
        ''Prefer protected entry/exit; monitor drift.'']
   \<and> acc_reasons (scan_hours default_policy ''score'' [foggy_hour] init_acc) =
       [''Fog possible at some hours (surface visibility risk).'',
        ''Moderate winds forecast (25/0 km/h).'']
   \<and> acc_reasons (spec_forecast_hour default_policy ''score'' foggy_hour init_acc) =
       [fog_reason_rt, ''Moderate wind/gusts (25/0 km/h).'']
   \<and> acc_score (scan_hours default_policy ''score'' [thunder_hour] init_acc) = 0
   \<and> acc_score (spec_forecast_hour default_policy ''score'' thunder_hour init_acc) = 50
   \<and> scan_hours default_policy ''score'' [foggy_hour] init_acc
       \<noteq> spec_forecast_hour default_policy ''score'' foggy_hour init_acc"
  by code_simp

text \<open>
  C6, amended. For every hour that does not trigger the thunderstorm hard stop, the fog,
  wind and precipitation rules of the forecast fire under the trigger conditions of
  real-time steps 2 to 4 and add the same weights, with the fog-forecast weight in place of
  the fog-realtime weight: the score after the hour is the same, and as many reasons are
  appended (in the forecast's own wording). No tip is appended. The hard stop is triggered
  by the same hours; an hour that triggers it only appends the thunderstorm reason and
  sets \<^verbatim>\<open>hard_unsafe\<close>.
\<close>

theorem forecast_hour_vs_realtime:
  "(acc_hard_unsafe (scan_hours policy fog_policy [h] a) \<longleftrightarrow>
      acc_hard_unsafe (spec_forecast_hour policy fog_policy h a))
   \<and> acc_tips (scan_hours policy fog_policy [h] a) = acc_tips a
   \<and> (\<not> (thunderstorm_hard_stop policy \<and> code_in (weather_code h) [95, 96, 99]) \<longrightarrow>
        acc_score (scan_hours policy fog_policy [h] a) =
          acc_score (spec_forecast_hour policy fog_policy h a)
        \<and> length (acc_reasons (scan_hours policy fog_policy [h] a)) =
            length (acc_reasons (spec_forecast_hour policy fog_policy h a)))
   \<and> (thunderstorm_hard_stop policy \<and> code_in (weather_code h) [95, 96, 99] \<longrightarrow>
        scan_hours policy fog_policy [h] a =
          (add_reason ''Thunderstorm forecast (lightning risk).'' a)\<lparr>acc_hard_unsafe := True\<rparr>)"
proof -
  let ?stop = "thunderstorm_hard_stop policy \<and> code_in (weather_code h) [95, 96, 99]"
  have 1: "acc_hard_unsafe (scan_hours policy fog_policy [h] a) \<longleftrightarrow>
      acc_hard_unsafe (spec_forecast_hour policy fog_policy h a)"
    by (auto simp add: spec_forecast_hour_def rt_weather_rules_hard fc_hour_rules_hard
        add_reason_def)
  have 2: "acc_tips (scan_hours policy fog_policy [h] a) = acc_tips a"
    by (rule scan_hours_tips)
  have 3: "\<not> ?stop \<longrightarrow>
      acc_score (scan_hours policy fog_policy [h] a) =
        acc_score (spec_forecast_hour policy fog_policy h a)
      \<and> length (acc_reasons (scan_hours policy fog_policy [h] a)) =
          length (acc_reasons (spec_forecast_hour policy fog_policy h a))"
    using fc_hour_rules_vs_realtime [of policy h fog_policy a] by auto
  have 4: "?stop \<longrightarrow> scan_hours policy fog_policy [h] a =
      (add_reason ''Thunderstorm forecast (lightning risk).'' a)\<lparr>acc_hard_unsafe := True\<rparr>"
    by simp
  show ?thesis
    by (rule conjI [OF 1 conjI [OF 2 conjI [OF 3 4]]])
qed

theorem forecast_hour_vs_realtime_witness:
  "\<not> code_in (weather_code foggy_hour) [95, 96, 99]
   \<and> thunderstorm_hard_stop default_policy
   \<and> code_in (weather_code thunder_hour) [95, 96, 99]
   \<and> acc_tips (scan_hours default_policy ''score'' [foggy_hour] init_acc) = acc_tips init_acc
   \<and> acc_score (scan_hours default_policy ''score'' [foggy_hour] init_acc) =
       acc_score (spec_forecast_hour default_policy ''score'' foggy_hour init_acc)
   \<and> length (acc_reasons (scan_hours default_policy ''score'' [foggy_hour] init_acc)) =
       length (acc_reasons (spec_forecast_hour default_policy ''score'' foggy_hour init_acc))
   \<and> scan_hours default_policy ''score'' [thunder_hour] init_acc =
       (add_reason ''Thunderstorm forecast (lightning risk).'' init_acc)
         \<lparr>acc_hard_unsafe := True\<rparr>"
proof -
  have h1: "\<not> code_in (weather_code foggy_hour) [95, 96, 99]"
    by (simp add: foggy_hour_def)
  have h2: "thunderstorm_hard_stop default_policy"
    by (simp add: default_policy_def)
  have h3: "code_in (weather_code thunder_hour) [95, 96, 99]"
    by (simp add: thunder_hour_def)
  show ?thesis
    using forecast_hour_vs_realtime [of default_policy "''score''" foggy_hour init_acc]
      forecast_hour_vs_realtime [of default_policy "''score''" thunder_hour init_acc]
      h1 h2 h3
    by blast
qed

text \<open>
  C7. When the weather code of a reading is 45 or 48, the fog rule appends the visibility
  reason and tip whatever the fog policy is; under "score" it adds the fog-realtime weight,
  under "caution" it raises the score to \<open>max score caution_min\<close>, and otherwise (as
  under "warn") it leaves the score alone. In the verdict, the reasons and tips are those
  of the same reading without its weather code, preceded by the fog reason and the fog
  tip, and the score is that reading's score plus the fog-realtime weight ("score"),
  plus the caution minimum if positive ("caution", the floor of a score still 0), or
  unchanged.
\<close>

theorem realtime_fog_rule:
  assumes "weather rd = Some wx"
    and "weather_code wx = PNum c"
    and "c \<in> {45, 48}"
  shows "rt_fog policy fog_policy (weather_code wx) a =
           (add_tip fog_tip_rt (add_reason fog_reason_rt a))
             \<lparr>acc_score := (if fog_policy = ''score'' then acc_score a + score_fog_realtime policy
                             else if fog_policy = ''caution''
                             then max (acc_score a) (band_caution_min policy)
                             else acc_score a)\<rparr>
    \<and> reasons (assess_realtime rd policy fog_policy) =
        fog_reason_rt
          # reasons (assess_realtime (rd\<lparr>weather := Some (wx\<lparr>weather_code := PNone\<rparr>)\<rparr>)
                      policy fog_policy)
    \<and> tips (assess_realtime rd policy fog_policy) =
        fog_tip_rt
          # tips (assess_realtime (rd\<lparr>weather := Some (wx\<lparr>weather_code := PNone\<rparr>)\<rparr>)
                   policy fog_policy)
    \<and> (\<exists>s. score (assess_realtime (rd\<lparr>weather := Some (wx\<lparr>weather_code := PNone\<rparr>)\<rparr>)
                   policy fog_policy) = Some s
          \<and> score (assess_realtime rd policy fog_policy) =
              Some (fog_points policy fog_policy + s))"
proof -
  let ?tail = "rt_after_fog policy (or_zero (wind_speed_10m_kmh wx))
      (or_zero (wind_gusts_10m_kmh wx))
      (or_zero (precipitation_mm wx) + or_zero (rain_mm wx))
      (or_empty empty_marine (marine rd)) (temperature_2m_c wx)"
  let ?a1 = "\<lparr> acc_reasons = [fog_reason_rt], acc_tips = [fog_tip_rt],
      acc_score = fog_points policy fog_policy, acc_hard_unsafe = False \<rparr>"
  let ?rd' = "rd\<lparr>weather := Some (wx\<lparr>weather_code := PNone\<rparr>)\<rparr>"
  have nostorm: "rt_thunderstorm policy (PNum c) init_acc = init_acc"
    using assms(3) by (auto simp add: rt_thunderstorm_def)
  have start: "rt_fog policy fog_policy (PNum c) (rt_thunderstorm policy (PNum c) init_acc) = ?a1"
    unfolding nostorm rt_fog_fires [OF assms(3)]
    by (simp add: acc_ops fog_points_def)
  have v: "assess_realtime rd policy fog_policy = finish policy (?tail ?a1)"
    using assms(1,2) start by (simp add: assess_realtime_steps)
  have v': "assess_realtime ?rd' policy fog_policy = finish policy (?tail init_acc)"
    by (simp add: assess_realtime_steps rt_fog_def rt_thunderstorm_def)
  note acc = accumulating_rt_after_fog
  have hard: "\<not> acc_hard_unsafe (?tail ?a1)" and hard': "\<not> acc_hard_unsafe (?tail init_acc)"
    by (simp_all add: accumulating_hard [OF acc] init_acc_def)
  have rs: "acc_reasons (?tail ?a1) = fog_reason_rt # acc_reasons (?tail init_acc)"
    by (subst accumulating_reasons [OF acc]) simp
  have ts: "acc_tips (?tail ?a1) = fog_tip_rt # acc_tips (?tail init_acc)"
    by (subst accumulating_tips [OF acc]) simp
  have sc: "acc_score (?tail ?a1) = fog_points policy fog_policy + acc_score (?tail init_acc)"
    by (subst accumulating_score [OF acc]) simp
  have fresh_r: "fog_reason_rt \<notin> set (acc_reasons (?tail init_acc))"
    using rt_after_fog_reasons_heads by (fastforce simp add: fog_reason_rt_def)
  have fresh_t: "fog_tip_rt \<notin> set (acc_tips (?tail init_acc))"
    using rt_after_fog_tips_heads by (fastforce simp add: fog_tip_rt_def)
  have 1: "rt_fog policy fog_policy (weather_code wx) a =
      (add_tip fog_tip_rt (add_reason fog_reason_rt a))
        \<lparr>acc_score := (if fog_policy = ''score'' then acc_score a + score_fog_realtime policy
                        else if fog_policy = ''caution''
                        then max (acc_score a) (band_caution_min policy)
                        else acc_score a)\<rparr>"
    unfolding assms(2) by (rule rt_fog_fires [OF assms(3)])
  have 2: "reasons (assess_realtime rd policy fog_policy) =
      fog_reason_rt # reasons (assess_realtime ?rd' policy fog_policy)"
    unfolding v v' finish_simps rs using fresh_r by (rule dedupe_Cons_fresh)
  have 3: "tips (assess_realtime rd policy fog_policy) =
      fog_tip_rt # tips (assess_realtime ?rd' policy fog_policy)"
    unfolding v v' finish_simps ts using fresh_t by (rule dedupe_Cons_fresh)
  have 4: "\<exists>s. score (assess_realtime ?rd' policy fog_policy) = Some s
      \<and> score (assess_realtime rd policy fog_policy) = Some (fog_points policy fog_policy + s)"
    unfolding v v' finish_simps using hard hard' sc by simp
  show ?thesis
    by (rule conjI [OF 1 conjI [OF 2 conjI [OF 3 4]]])
qed

theorem realtime_fog_rule_witness:
  "weather mist_reading = Some mist_weather
   \<and> weather_code mist_weather = PNum 48
   \<and> acc_score (rt_fog default_policy ''caution'' (weather_code mist_weather)
         (add_score 7 init_acc)) = 20
   \<and> reasons (assess_realtime mist_reading default_policy ''caution'') =
       fog_reason_rt
         # reasons (assess_realtime
                      (mist_reading\<lparr>weather := Some (mist_weather\<lparr>weather_code := PNone\<rparr>)\<rparr>)
                      default_policy ''caution'')
   \<and> tips (assess_realtime mist_reading default_policy ''caution'') =
       fog_tip_rt
         # tips (assess_realtime
                   (mist_reading\<lparr>weather := Some (mist_weather\<lparr>weather_code := PNone\<rparr>)\<rparr>)
                   default_policy ''caution'')
   \<and> (\<exists>s. score (assess_realtime
                    (mist_reading\<lparr>weather := Some (mist_weather\<lparr>weather_code := PNone\<rparr>)\<rparr>)
                    default_policy ''caution'') = Some s
         \<and> score (assess_realtime mist_reading default_policy ''caution'') =
             Some (fog_points default_policy ''caution'' + s))"
proof -
  have h1: "weather mist_reading = Some mist_weather"
    by (simp add: mist_reading_def)
  have h2: "weather_code mist_weather = PNum 48"
    by (simp add: mist_weather_def)
  have h3: "(48::rat) \<in> {45, 48}"
    by simp
  note inst = realtime_fog_rule [OF h1 h2 h3, of default_policy "''caution''" "add_score 7 init_acc"]
  from inst have "rt_fog default_policy ''caution'' (weather_code mist_weather)
      (add_score 7 init_acc) =
      (add_tip fog_tip_rt (add_reason fog_reason_rt (add_score 7 init_acc)))
        \<lparr>acc_score := (if ''caution'' = ''score''
                        then acc_score (add_score 7 init_acc) + score_fog_realtime default_policy
                        else if ''caution'' = ''caution''
                        then max (acc_score (add_score 7 init_acc))
                               (band_caution_min default_policy)
                        else acc_score (add_score 7 init_acc))\<rparr>"
    by (rule conjunct1)
  then have step: "acc_score (rt_fog default_policy ''caution'' (weather_code mist_weather)
      (add_score 7 init_acc)) = 20"
    by (simp add: acc_ops default_policy_def)
  show ?thesis
    using inst h1 h2 step by blast
qed

text \<open>
  C8. A wave height that is absent or not a number costs the missing-waves weight and
  appends the incomplete sea-state reason: the wave rule then is exactly that addition,
  and the reason is among the reasons of the verdict. When the swell height or the swell
  period is absent or not a number, the swell rule changes nothing, so the verdict is the
  one computed without it: no swell reason, no swell weight.
\<close>

theorem realtime_missing_sea_state:
  "(\<not> is_number wave_h \<longrightarrow>
      rt_waves policy wave_h a =
        add_score (score_missing_waves policy) (add_reason wave_missing_reason_rt a))
   \<and> (\<not> (is_number swell_h \<and> is_number swell_p) \<longrightarrow>
        rt_swell policy swell_h swell_p a = a)
   \<and> (\<not> is_number (wave_height_m (or_empty empty_marine (marine rd))) \<longrightarrow>
        wave_missing_reason_rt \<in> set (reasons (assess_realtime rd policy fog_policy))
        \<and> assess_realtime rd policy fog_policy =
            finish policy
              (rt_comfort (temperature_2m_c (or_empty empty_weather (weather rd)))
                (rt_swell policy
                   (swell_wave_height_m (or_empty empty_marine (marine rd)))
                   (swell_wave_period_s (or_empty empty_marine (marine rd)))
                  (add_score (score_missing_waves policy)
                    (add_reason wave_missing_reason_rt
                      (rt_weather_rules policy fog_policy
                         (or_empty empty_weather (weather rd)) init_acc))))))
   \<and> (\<not> (is_number (swell_wave_height_m (or_empty empty_marine (marine rd)))
          \<and> is_number (swell_wave_period_s (or_empty empty_marine (marine rd)))) \<longrightarrow>
        assess_realtime rd policy fog_policy =
          finish policy
            (rt_comfort (temperature_2m_c (or_empty empty_weather (weather rd)))
              (rt_waves policy (wave_height_m (or_empty empty_marine (marine rd)))
                (rt_weather_rules policy fog_policy
                   (or_empty empty_weather (weather rd)) init_acc))))"
proof -
  let ?sea = "or_empty empty_marine (marine rd)"
  let ?wx = "or_empty empty_weather (weather rd)"
  have 1: "\<not> is_number wave_h \<longrightarrow>
      rt_waves policy wave_h a =
        add_score (score_missing_waves policy) (add_reason wave_missing_reason_rt a)" for wave_h a
    by (cases wave_h) simp_all
  have 2: "\<not> (is_number swell_h \<and> is_number swell_p) \<longrightarrow>
      rt_swell policy swell_h swell_p a = a" for swell_h swell_p a
    by (cases swell_h; cases swell_p) simp_all
  have 3: "\<not> is_number (wave_height_m ?sea) \<longrightarrow>
      wave_missing_reason_rt \<in> set (reasons (assess_realtime rd policy fog_policy))
      \<and> assess_realtime rd policy fog_policy =
          finish policy
            (rt_comfort (temperature_2m_c ?wx)
              (rt_swell policy (swell_wave_height_m ?sea) (swell_wave_period_s ?sea)
                (add_score (score_missing_waves policy)
                  (add_reason wave_missing_reason_rt
                    (rt_weather_rules policy fog_policy ?wx init_acc)))))"
  proof
    assume w: "\<not> is_number (wave_height_m ?sea)"
    have eq: "assess_realtime rd policy fog_policy =
        finish policy
          (rt_comfort (temperature_2m_c ?wx)
            (rt_swell policy (swell_wave_height_m ?sea) (swell_wave_period_s ?sea)
              (add_score (score_missing_waves policy)
                (add_reason wave_missing_reason_rt
                  (rt_weather_rules policy fog_policy ?wx init_acc)))))"
      using 1 [of "wave_height_m ?sea"] w
      by (simp add: assess_realtime_def Let_def rt_sea_rules_def)
    have "wave_missing_reason_rt \<in> set (reasons (assess_realtime rd policy fog_policy))"
      unfolding eq finish_simps set_dedupe
      by (subst accumulating_reasons [OF accumulating_rt_comfort],
          subst accumulating_reasons [OF accumulating_rt_swell]) (simp add: acc_ops)
    with eq show "wave_missing_reason_rt \<in> set (reasons (assess_realtime rd policy fog_policy))
      \<and> assess_realtime rd policy fog_policy =
          finish policy
            (rt_comfort (temperature_2m_c ?wx)
              (rt_swell policy (swell_wave_height_m ?sea) (swell_wave_period_s ?sea)
                (add_score (score_missing_waves policy)
                  (add_reason wave_missing_reason_rt
                    (rt_weather_rules policy fog_policy ?wx init_acc)))))"
      by (rule conjI [rotated])
  qed
  have 4: "\<not> (is_number (swell_wave_height_m ?sea) \<and> is_number (swell_wave_period_s ?sea)) \<longrightarrow>
      assess_realtime rd policy fog_policy =
        finish policy
          (rt_comfort (temperature_2m_c ?wx)
            (rt_waves policy (wave_height_m ?sea)
              (rt_weather_rules policy fog_policy ?wx init_acc)))"
    using 2 [of "swell_wave_height_m ?sea" "swell_wave_period_s ?sea"]
    by (simp add: assess_realtime_def Let_def rt_sea_rules_def)
  show ?thesis
    by (rule conjI [OF 1 conjI [OF 2 conjI [OF 3 4]]])
qed

theorem realtime_missing_sea_state_witness:
  "\<not> is_number (PStr ''n/a'')
   \<and> \<not> is_number PNone
   \<and> rt_waves default_policy (PStr ''n/a'') init_acc =
       add_score (score_missing_waves default_policy)
         (add_reason wave_missing_reason_rt init_acc)
   \<and> rt_swell default_policy (PNum 3) PNone init_acc = init_acc
   \<and> wave_missing_reason_rt \<in> set (reasons (assess_realtime mist_reading default_policy ''warn''))
   \<and> assess_realtime mist_reading default_policy ''warn'' =
       finish default_policy
         (rt_comfort (temperature_2m_c (or_empty empty_weather (weather mist_reading)))
           (rt_waves default_policy (wave_height_m (or_empty empty_marine (marine mist_reading)))
             (rt_weather_rules default_policy ''warn''
                (or_empty empty_weather (weather mist_reading)) init_acc)))"
proof -
  have h1: "\<not> is_number (PStr ''n/a'')" and h2: "\<not> is_number PNone"
    by simp_all
  have h3: "\<not> is_number (wave_height_m (or_empty empty_marine (marine mist_reading)))"
    by (simp add: mist_reading_def)
  have h4: "\<not> (is_number (swell_wave_height_m (or_empty empty_marine (marine mist_reading)))
      \<and> is_number (swell_wave_period_s (or_empty empty_marine (marine mist_reading))))"
    by (simp add: mist_reading_def)
  show ?thesis
    using realtime_missing_sea_state [where wave_h = "PStr ''n/a''" and swell_h = "PNum 3"
        and swell_p = PNone and a = init_acc and policy = default_policy
        and rd = mist_reading and fog_policy = "''warn''"] h1 h2 h3 h4
    by blast
qed

text \<open>
  C9. The fixed scenario: weather code 3, wind 25 km/h, gusts 20 km/h, no precipitation
  and waves of 1.2 m, under the default policy with fog policy "score", scores
  15 + 8 = 23, which is Caution, with the moderate-wind reason followed by the
  moderate-wave reason.
\<close>

theorem realtime_fixed_scenario:
  "assess_realtime scenario_reading default_policy ''score'' =
   \<lparr> status = ''Caution'', score = Some 23,
     reasons = [''Moderate wind/gusts (25/20 km/h).'', ''Moderate waves (1.20 m).''],
     tips = [''Prefer protected entry/exit; monitor drift.''] \<rparr>"
  by code_simp

text \<open>
  C10. The verdict of a forecast assessment never carries a tip: neither the hourly scan
  nor the daily marine rules append one.
\<close>

theorem forecast_tips_empty: "tips (assess_forecast fc policy fog_policy) = []"
  by (simp add: assess_forecast_def finish_simps fc_marine_rules_tips scan_hours_tips
      init_acc_def dedupe_Nil)

end
